theory Spec2Isabelle
  imports Complex_Main "HOL-Library.Sublist"
begin

section \<open>JavaScript values at the request boundary\<close>

text \<open>
  The tool arguments arrive as a JSON value (or are absent). A property that is not
  there reads as \<open>undefined\<close>, which is \<open>None\<close> here. A number is the rational that the
  double of the runtime stands for; the sign of zero plays no part. An object is an
  association list in which the first binding of a key is the one that is read.
\<close>

datatype json =
    JNull
  | JBool bool
  | JNum rat
  | JStr string
  | JArr "json list"
  | JObj "(string \<times> json) list"

type_synonym jsval = "json option"

text \<open>\<open>!v\<close> is \<open>\<not> truthy v\<close>: undefined, null, false, 0 and the empty string are falsy.\<close>

fun truthy :: "jsval \<Rightarrow> bool" where
  "truthy None = False"
| "truthy (Some JNull) = False"
| "truthy (Some (JBool b)) = b"
| "truthy (Some (JNum n)) = (n \<noteq> 0)"
| "truthy (Some (JStr s)) = (s \<noteq> [])"
| "truthy (Some (JArr xs)) = True"
| "truthy (Some (JObj kvs)) = True"

fun typeof :: "jsval \<Rightarrow> string" where
  "typeof None = ''undefined''"
| "typeof (Some JNull) = ''object''"
| "typeof (Some (JBool b)) = ''boolean''"
| "typeof (Some (JNum n)) = ''number''"
| "typeof (Some (JStr s)) = ''string''"
| "typeof (Some (JArr xs)) = ''object''"
| "typeof (Some (JObj kvs)) = ''object''"

text \<open>
  \<open>get v k\<close> is the property read \<open>v.k\<close> (also through destructuring) for the keys the
  program uses, none of which an array or a primitive has. \<open>hasKey v k\<close> is \<open>k in v\<close>.
  Both are only reached once \<open>v\<close> is known to be a non-null object.
\<close>

fun get :: "jsval \<Rightarrow> string \<Rightarrow> jsval" where
  "get (Some (JObj kvs)) k = map_of kvs k"
| "get v k = None"

fun hasKey :: "jsval \<Rightarrow> string \<Rightarrow> bool" where
  "hasKey (Some (JObj kvs)) k = (map_of kvs k \<noteq> None)"
| "hasKey v k = False"

text \<open>\<open>[..].includes(v)\<close> on an array of string literals: \<open>v\<close> is one of these strings.\<close>

definition oneOf :: "string list \<Rightarrow> jsval \<Rightarrow> bool" where
  "oneOf names v = (case v of Some (JStr s) \<Rightarrow> s \<in> set names | _ \<Rightarrow> False)"

definition isStr :: "jsval \<Rightarrow> string \<Rightarrow> bool" where
  "isStr v s = (v = Some (JStr s))"

text \<open>The value of a string-typed argument once the type guard has passed.\<close>

fun strOf :: "jsval \<Rightarrow> string" where
  "strOf (Some (JStr s)) = s"
| "strOf v = []"

fun numOf :: "jsval \<Rightarrow> rat option" where
  "numOf (Some (JNum n)) = Some n"
| "numOf v = None"

section \<open>The argument type guards\<close>

definition isContactsArgs :: "jsval \<Rightarrow> bool" where
  "isContactsArgs args =
     (typeof args = ''object'' \<and> args \<noteq> Some JNull \<and>
      (\<not> hasKey args ''name'' \<or> typeof (get args ''name'') = ''string''))"

definition isNotesArgs :: "jsval \<Rightarrow> bool" where
  "isNotesArgs args =
     (typeof args = ''object'' \<and> args \<noteq> Some JNull \<and>
      (\<not> hasKey args ''searchText'' \<or> typeof (get args ''searchText'') = ''string''))"

definition isMessagesArgs :: "jsval \<Rightarrow> bool" where
  "isMessagesArgs args =
     (if typeof args \<noteq> ''object'' \<or> args = Some JNull then False
      else
        let operation = get args ''operation'';
            phoneNumber = get args ''phoneNumber'';
            message = get args ''message'';
            limit = get args ''limit'';
            scheduledTime = get args ''scheduledTime''
        in
        if \<not> truthy operation \<or> \<not> oneOf [''send'', ''read'', ''schedule'', ''unread''] operation
        then False
        else if (isStr operation ''send'' \<or> isStr operation ''schedule'') \<and>
                (\<not> truthy phoneNumber \<or> \<not> truthy message) then False
        else if isStr operation ''schedule'' \<and> \<not> truthy scheduledTime then False
        else if isStr operation ''read'' \<and> \<not> truthy phoneNumber then False
        else if truthy phoneNumber \<and> typeof phoneNumber \<noteq> ''string'' then False
        else if truthy message \<and> typeof message \<noteq> ''string'' then False
        else if truthy limit \<and> typeof limit \<noteq> ''number'' then False
        else if truthy scheduledTime \<and> typeof scheduledTime \<noteq> ''string'' then False
        else True)"

definition isRemindersArgs :: "jsval \<Rightarrow> bool" where
  "isRemindersArgs args =
     (if typeof args \<noteq> ''object'' \<or> args = Some JNull then False
      else
        let operation = get args ''operation'';
            searchText = get args ''searchText'';
            title = get args ''title'';
            notes = get args ''notes'';
            dueDate = get args ''dueDate'';
            ident = get args ''id''
        in
        if \<not> truthy operation \<or> \<not> oneOf [''list'', ''find'', ''create'', ''complete''] operation
        then False
        else if isStr operation ''find'' \<and> \<not> truthy searchText then False
        else if isStr operation ''create'' \<and> \<not> truthy title then False
        else if isStr operation ''complete'' \<and> \<not> truthy ident then False
        else if truthy searchText \<and> typeof searchText \<noteq> ''string'' then False
        else if truthy title \<and> typeof title \<noteq> ''string'' then False
        else if truthy notes \<and> typeof notes \<noteq> ''string'' then False
        else if truthy dueDate \<and> typeof dueDate \<noteq> ''string'' then False
        else if truthy ident \<and> typeof ident \<noteq> ''string'' then False
        else True)"

definition isCalendarArgs :: "jsval \<Rightarrow> bool" where
  "isCalendarArgs args =
     (if typeof args \<noteq> ''object'' \<or> args = Some JNull then False
      else
        let operation = get args ''operation'';
            searchText = get args ''searchText'';
            startDate = get args ''startDate'';
            endDate = get args ''endDate'';
            title = get args ''title'';
            description = get args ''description'';
            location = get args ''location'';
            duration = get args ''duration''
        in
        if \<not> truthy operation \<or> \<not> oneOf [''list'', ''find'', ''create''] operation then False
        else if isStr operation ''find'' \<and> \<not> truthy searchText then False
        else if isStr operation ''create'' \<and>
                (\<not> truthy title \<or> \<not> truthy startDate \<or> \<not> truthy duration) then False
        else if truthy searchText \<and> typeof searchText \<noteq> ''string'' then False
        else if truthy startDate \<and> typeof startDate \<noteq> ''string'' then False
        else if truthy endDate \<and> typeof endDate \<noteq> ''string'' then False
        else if truthy title \<and> typeof title \<noteq> ''string'' then False
        else if truthy description \<and> typeof description \<noteq> ''string'' then False
        else if truthy location \<and> typeof location \<noteq> ''string'' then False
        else if truthy duration \<and> typeof duration \<noteq> ''number'' then False
        else True)"

section \<open>Errors, strings and dates of the JavaScript host\<close>

text \<open>
  What a \<open>throw\<close> carries: an \<open>Error\<close> object with its message, or any other value, kept
  as the text \<open>String(v)\<close> gives. \<open>errText\<close> is the expression
  \<open>error instanceof Error ? error.message : String(error)\<close> of every \<open>catch\<close> block.
\<close>

datatype jserror = JsError string | Thrown string

fun errText :: "jserror \<Rightarrow> string" where
  "errText (JsError m) = m"
| "errText (Thrown s) = s"

text \<open>
  Strings are lists of characters. \<open>includes_str h n\<close> is \<open>h.includes(n)\<close>: \<open>n\<close> occurs in
  \<open>h\<close> as a contiguous run. How \<open>toLowerCase\<close> folds a text is left to the host below.
\<close>

fun includes_str :: "string \<Rightarrow> string \<Rightarrow> bool" where
  "includes_str [] n = (n = [])"
| "includes_str (c # cs) n = (prefix n (c # cs) \<or> includes_str cs n)"

text \<open>
  A \<open>Date\<close> object holds a time value in milliseconds since the epoch, or is invalid.
  \<open>toISOString\<close> of an invalid date throws a RangeError; the ISO text of a valid date,
  handed to the automation bridge and read back there with \<open>new Date\<close>, gives the same
  time value, so the model passes the time value itself.
\<close>

datatype jsdate = InvalidDate | Date int

text \<open>
  The parts of the runtime and of the native applications that the program calls but
  does not define are parameters: how \<open>new Date(s)\<close> reads a string, how a date prints
  (\<open>toString\<close>, \<open>toLocaleString\<close>), what \<open>toLowerCase\<close> makes of a text, the messages of
  the built-in errors, the \<open>_contains\<close> test of the Reminders query engine (field first,
  searched text second) and the identifiers the applications give to new objects.
\<close>

record host =
  parseDate :: "string \<Rightarrow> jsdate"
  dateToString :: "int \<Rightarrow> string"
  toLocaleString :: "jsdate \<Rightarrow> string"
  toLowerCase :: "string \<Rightarrow> string"
  rangeErrorText :: string
  typeErrorText :: string
  nativeContains :: "string \<Rightarrow> string \<Rightarrow> bool"
  newId :: "nat \<Rightarrow> string"

definition toISOString :: "host \<Rightarrow> jsdate \<Rightarrow> jserror + int" where
  "toISOString h d =
     (case d of InvalidDate \<Rightarrow> Inl (JsError (rangeErrorText h)) | Date t \<Rightarrow> Inr t)"

text \<open>
  Numbers are doubles. \<open>toDouble x\<close> is the double nearest to \<open>x\<close>, ties going to the even
  significand of 53 bits, which is how each sum and product is rounded. The two ends of
  the range of doubles are left out: a time beyond the range of dates is invalid either
  way, and a product below the smallest double does not move a sum.
\<close>

fun bitLength :: "nat \<Rightarrow> nat" where
  "bitLength n = (if n = 0 then 0 else Suc (bitLength (n div 2)))"

definition pow2 :: "int \<Rightarrow> rat" where
  "pow2 e = (if 0 \<le> e then 2 ^ nat e else 1 / 2 ^ nat (- e))"

definition floorLog2 :: "rat \<Rightarrow> int" where
  "floorLog2 a =
     (if 1 \<le> a then int (bitLength (nat \<lfloor>a\<rfloor>)) - 1
      else (let k = int (bitLength (nat \<lfloor>1 / a\<rfloor>)) - 1
            in if 1 / a = pow2 k then - k else - k - 1))"

definition roundEven :: "rat \<Rightarrow> int" where
  "roundEven x =
     (let f = \<lfloor>x\<rfloor>; d = x - of_int f
      in if d < 1 / 2 then f else if 1 / 2 < d then f + 1 else if even f then f else f + 1)"

definition toDouble :: "rat \<Rightarrow> rat" where
  "toDouble x =
     (if x = 0 then 0
      else (let e = floorLog2 \<bar>x\<bar> - 52
            in sgn x * of_int (roundEven (\<bar>x\<bar> / pow2 e)) * pow2 e))"

text \<open>\<open>new Date(x)\<close> for a number: out of range is invalid, a fraction is cut off.\<close>

definition timeClip :: "rat \<Rightarrow> jsdate" where
  "timeClip x =
     (if \<bar>x\<bar> > 8640000000000000 then InvalidDate
      else Date (if 0 \<le> x then \<lfloor>x\<rfloor> else \<lceil>x\<rceil>))"

section \<open>The native applications behind the automation bridge\<close>

text \<open>
  The state of the Reminders and Calendar applications as the bridge shows it. A
  backing store (a reminder list, a calendar) either answers with its items or raises
  on every read, search and insert. \<open>log\<close> records each call that reaches the bridge,
  in order.
\<close>

datatype domain = Reminders | Calendar

datatype bridge_call =
    Probe domain
  | ListStores domain
  | ReadAll domain nat
  | Search domain nat
  | Insert domain nat
  | SetField domain nat string

record reminder_obj =
  ro_id :: string
  ro_name :: string
  ro_body :: "string option"
  ro_dueDate :: "int option"
  ro_completed :: bool

record event_obj =
  eo_id :: string
  eo_summary :: "string option"
  eo_description :: "string option"
  eo_startDate :: int
  eo_endDate :: int
  eo_location :: "string option"

datatype 'a store = Unavailable jserror | Available "'a list"

record calendar_src =
  cal_name :: string
  cal_events :: "event_obj store"

record world =
  remindersAccess :: bool
  calendarAccess :: bool
  lists :: "reminder_obj store list"
  defaultList :: nat
  calendars :: "calendar_src list"
  defaultCalendar :: nat
  minted :: nat
  log :: "bridge_call list"

type_synonym 'a io = "world \<Rightarrow> (jserror + 'a) \<times> world"

definition ret :: "'a \<Rightarrow> 'a io" where
  "ret x w = (Inr x, w)"

definition raise :: "jserror \<Rightarrow> 'a io" where
  "raise e w = (Inl e, w)"

definition andThen :: "'a io \<Rightarrow> ('a \<Rightarrow> 'b io) \<Rightarrow> 'b io" where
  "andThen m f w = (case m w of (Inl e, w') \<Rightarrow> (Inl e, w') | (Inr x, w') \<Rightarrow> f x w')"

definition lift :: "jserror + 'a \<Rightarrow> 'a io" where
  "lift r w = (r, w)"

text \<open>\<open>try { m } catch (error) { throw new Error(pre + errText error) }\<close>\<close>

definition rethrow :: "string \<Rightarrow> 'a io \<Rightarrow> 'a io" where
  "rethrow pre m w =
     (case m w of (Inl e, w') \<Rightarrow> (Inl (JsError (pre @ errText e)), w') | (Inr x, w') \<Rightarrow> (Inr x, w'))"

definition call :: "bridge_call \<Rightarrow> world \<Rightarrow> world" where
  "call c w = w\<lparr>log := log w @ [c]\<rparr>"

section \<open>utils/reminders.ts\<close>

record Reminder =
  rem_id :: string
  rem_title :: string
  rem_notes :: string
  rem_dueDate :: "string option"
  rem_isCompleted :: bool

definition remindersDenied :: string where
  "remindersDenied =
     ''Cannot access Reminders app. Please grant access in System Preferences > Security & Privacy > Privacy > Reminders.''"

text \<open>The probe counts the reminders; when the script fails the guard throws.\<close>

definition checkRemindersAccess :: "bool io" where
  "checkRemindersAccess w =
     (if remindersAccess w then (Inr True, call (Probe Reminders) w)
      else (Inl (JsError remindersDenied), call (Probe Reminders) w))"

text \<open>
  The object literal every function builds from a reminder of the application:
  \<open>body() || ''\<close> and \<open>dueDate() ? dueDate().toString() : null\<close>.
\<close>

definition toReminder :: "host \<Rightarrow> reminder_obj \<Rightarrow> Reminder" where
  "toReminder h r =
     \<lparr>rem_id = ro_id r,
      rem_title = ro_name r,
      rem_notes = (case ro_body r of None \<Rightarrow> [] | Some b \<Rightarrow> b),
      rem_dueDate = map_option (dateToString h) (ro_dueDate r),
      rem_isCompleted = ro_completed r\<rparr>"

text \<open>The loop over all lists of \<open>getAllReminders\<close>; the first list that raises ends it.\<close>

fun readLists :: "nat \<Rightarrow> reminder_obj store list \<Rightarrow> reminder_obj list \<Rightarrow> reminder_obj list io" where
  "readLists i [] allReminders w = (Inr allReminders, w)"
| "readLists i (Unavailable e # ls) allReminders w = (Inl e, call (ReadAll Reminders i) w)"
| "readLists i (Available rs # ls) allReminders w =
     readLists (Suc i) ls (allReminders @ rs) (call (ReadAll Reminders i) w)"

definition getAllReminders :: "host \<Rightarrow> Reminder list io" where
  "getAllReminders h =
     rethrow ''Error accessing reminders: ''
       (andThen checkRemindersAccess (\<lambda>ok.
          if \<not> ok then ret []
          else (\<lambda>w. andThen (readLists 0 (lists w) [])
                  (\<lambda>allReminders. ret (map (toReminder h) allReminders))
                  (call (ListStores Reminders) w))))"

text \<open>
  The query \<open>whose({_or: [{name: {_contains: t}}, {body: {_contains: t}}]})\<close> is
  answered by the application; a reminder without a body has nothing to match there.
\<close>

definition whoseContains :: "host \<Rightarrow> string \<Rightarrow> reminder_obj \<Rightarrow> bool" where
  "whoseContains h searchText r =
     (nativeContains h (ro_name r) searchText \<or>
      (case ro_body r of None \<Rightarrow> False | Some b \<Rightarrow> nativeContains h b searchText))"

fun searchLists ::
  "host \<Rightarrow> string \<Rightarrow> nat \<Rightarrow> reminder_obj store list \<Rightarrow> reminder_obj list \<Rightarrow> reminder_obj list io" where
  "searchLists h searchText i [] matchingReminders w = (Inr matchingReminders, w)"
| "searchLists h searchText i (Unavailable e # ls) matchingReminders w =
     (Inl e, call (Search Reminders i) w)"
| "searchLists h searchText i (Available rs # ls) matchingReminders w =
     searchLists h searchText (Suc i) ls
       (matchingReminders @ filter (whoseContains h searchText) rs)
       (call (Search Reminders i) w)"

definition reminderMatches :: "host \<Rightarrow> string \<Rightarrow> Reminder \<Rightarrow> bool" where
  "reminderMatches h searchText reminder =
     (includes_str (toLowerCase h (rem_title reminder)) (toLowerCase h searchText) \<or>
      includes_str (toLowerCase h (rem_notes reminder)) (toLowerCase h searchText))"

definition findReminders :: "host \<Rightarrow> string \<Rightarrow> Reminder list io" where
  "findReminders h searchText =
     rethrow ''Error finding reminders: ''
       (andThen checkRemindersAccess (\<lambda>ok.
          if \<not> ok then ret []
          else (\<lambda>w. andThen (searchLists h searchText 0 (lists w) [])
                  (\<lambda>matching.
                     let reminders = map (toReminder h) matching in
                     if length reminders = 0
                     then andThen (getAllReminders h)
                            (\<lambda>allReminders. ret (filter (reminderMatches h searchText) allReminders))
                     else ret reminders)
                  (call (ListStores Reminders) w))))"

text \<open>
  \<open>createReminder\<close>: the due date goes to the bridge as \<open>dueDate?.toISOString()\<close>, which
  throws for an invalid date before anything is written. The application appends the
  new reminder to the default list, open, with an identifier of its own.
\<close>

definition pushReminder :: "reminder_obj \<Rightarrow> unit io" where
  "pushReminder r w =
     (let i = defaultList w; w' = call (Insert Reminders i) w in
      if i < length (lists w) then
        (case lists w ! i of
           Unavailable e \<Rightarrow> (Inl e, w')
         | Available rs \<Rightarrow>
             (Inr (), w'\<lparr>lists := (lists w)[i := Available (rs @ [r])], minted := Suc (minted w)\<rparr>))
      else (Inl (Thrown ''no default list''), w'))"

definition createReminder :: "host \<Rightarrow> string \<Rightarrow> string \<Rightarrow> jsdate option \<Rightarrow> Reminder option io" where
  "createReminder h title notes dueDate =
     rethrow ''Error creating reminder: ''
       (andThen checkRemindersAccess (\<lambda>ok.
          if \<not> ok then ret None
          else andThen
                 (lift (case dueDate of None \<Rightarrow> Inr None
                        | Some d \<Rightarrow> map_sum (\<lambda>e. e) Some (toISOString h d)))
                 (\<lambda>due w.
                    let reminder =
                          \<lparr>ro_id = newId h (minted w), ro_name = title, ro_body = Some notes,
                           ro_dueDate = due, ro_completed = False\<rparr>
                    in andThen (pushReminder reminder)
                         (\<lambda>_. ret (Some (toReminder h reminder))) w)))"

text \<open>
  \<open>completeReminder\<close>: the lists are read in order and the first reminder with the
  identifier is marked; a list that raises before one is found ends the search.
\<close>

fun firstWithId :: "string \<Rightarrow> reminder_obj list \<Rightarrow> nat option" where
  "firstWithId ident [] = None"
| "firstWithId ident (r # rs) =
     (if ro_id r = ident then Some 0 else map_option Suc (firstWithId ident rs))"

fun findTarget :: "string \<Rightarrow> nat \<Rightarrow> reminder_obj store list \<Rightarrow> (nat \<times> nat) option io" where
  "findTarget ident i [] w = (Inr None, w)"
| "findTarget ident i (Unavailable e # ls) w = (Inl e, call (ReadAll Reminders i) w)"
| "findTarget ident i (Available rs # ls) w =
     (case firstWithId ident rs of
        Some j \<Rightarrow> (Inr (Some (i, j)), call (ReadAll Reminders i) w)
      | None \<Rightarrow> findTarget ident (Suc i) ls (call (ReadAll Reminders i) w))"

definition markCompleted :: "nat \<Rightarrow> nat \<Rightarrow> reminder_obj store list \<Rightarrow> reminder_obj store list" where
  "markCompleted i j ls =
     (case ls ! i of
        Available rs \<Rightarrow> ls[i := Available (rs[j := (rs ! j)\<lparr>ro_completed := True\<rparr>])]
      | Unavailable e \<Rightarrow> ls)"

definition completeReminder :: "string \<Rightarrow> bool io" where
  "completeReminder ident =
     rethrow ''Error completing reminder: ''
       (andThen checkRemindersAccess (\<lambda>ok.
          if \<not> ok then ret False
          else (\<lambda>w. andThen (findTarget ident 0 (lists w))
                  (\<lambda>targetReminder w'.
                     case targetReminder of
                       Some (i, j) \<Rightarrow>
                         (Inr True,
                          (call (SetField Reminders i ident) w')\<lparr>lists := markCompleted i j (lists w')\<rparr>)
                     | None \<Rightarrow> (Inr False, w'))
                  (call (ListStores Reminders) w))))"

section \<open>utils/calendar.ts\<close>

text \<open>\<open>title\<close> is \<open>event.summary()\<close> as it comes, so an event without a summary has none.\<close>

record CalendarEvent =
  ev_id :: string
  ev_title :: "string option"
  ev_description :: string
  ev_startDate :: string
  ev_endDate :: string
  ev_location :: string
  ev_calendarName :: string

definition calendarDenied :: string where
  "calendarDenied =
     ''Cannot access Calendar app. Please grant access in System Preferences > Security & Privacy > Privacy > Calendars.''"

definition checkCalendarAccess :: "bool io" where
  "checkCalendarAccess w =
     (if calendarAccess w then (Inr True, call (Probe Calendar) w)
      else (Inl (JsError calendarDenied), call (Probe Calendar) w))"

definition orEmpty :: "string option \<Rightarrow> string" where
  "orEmpty v = (case v of None \<Rightarrow> [] | Some s \<Rightarrow> s)"

text \<open>
  The object literal built from an event; \<open>event.calendar().name()\<close> is the name of the
  calendar the event was read from, which the loops below keep beside the event.
\<close>

definition toEvent :: "host \<Rightarrow> string \<times> event_obj \<Rightarrow> CalendarEvent" where
  "toEvent h ce =
     (case ce of (cname, e) \<Rightarrow>
        \<lparr>ev_id = eo_id e,
         ev_title = eo_summary e,
         ev_description = orEmpty (eo_description e),
         ev_startDate = dateToString h (eo_startDate e),
         ev_endDate = dateToString h (eo_endDate e),
         ev_location = orEmpty (eo_location e),
         ev_calendarName = cname\<rparr>)"

text \<open>The loop of \<open>getAllEvents\<close>: a calendar that raises is skipped by the inner \<open>catch\<close>.\<close>

fun readCalendars ::
  "nat \<Rightarrow> calendar_src list \<Rightarrow> (string \<times> event_obj) list \<Rightarrow> world \<Rightarrow> (string \<times> event_obj) list \<times> world" where
  "readCalendars i [] allEvents w = (allEvents, w)"
| "readCalendars i (c # cs) allEvents w =
     (case cal_events c of
        Unavailable e \<Rightarrow> readCalendars (Suc i) cs allEvents (call (ReadAll Calendar i) w)
      | Available es \<Rightarrow>
          readCalendars (Suc i) cs (allEvents @ map (Pair (cal_name c)) es)
            (call (ReadAll Calendar i) w))"

definition getAllEvents :: "host \<Rightarrow> CalendarEvent list io" where
  "getAllEvents h =
     rethrow ''Error accessing calendar events: ''
       (andThen checkCalendarAccess (\<lambda>ok.
          if \<not> ok then ret []
          else (\<lambda>w. case readCalendars 0 (calendars w) [] (call (ListStores Calendar) w) of
                  (allEvents, w') \<Rightarrow> (Inr (map (toEvent h) allEvents), w'))))"

text \<open>
  The date query \<open>whose({startDate: {_greaterThanEquals: s}, endDate: {_lessThanEquals: e}})\<close>
  and the text filter that follows it on the events of one calendar.
\<close>

definition whoseBetween :: "int \<Rightarrow> int \<Rightarrow> event_obj \<Rightarrow> bool" where
  "whoseBetween s e ev = (s \<le> eo_startDate ev \<and> eo_endDate ev \<le> e)"

definition textFilter :: "string \<Rightarrow> event_obj \<Rightarrow> bool" where
  "textFilter searchText ev =
     (includes_str (orEmpty (eo_summary ev)) searchText \<or>
      includes_str (orEmpty (eo_description ev)) searchText \<or>
      includes_str (orEmpty (eo_location ev)) searchText)"

fun searchCalendars ::
  "string \<Rightarrow> int option \<Rightarrow> int option \<Rightarrow> nat \<Rightarrow> calendar_src list \<Rightarrow> (string \<times> event_obj) list \<Rightarrow>
   world \<Rightarrow> (string \<times> event_obj) list \<times> world" where
  "searchCalendars searchText startDateObj endDateObj i [] matchingEvents w = (matchingEvents, w)"
| "searchCalendars searchText startDateObj endDateObj i (c # cs) matchingEvents w =
     (let both = (startDateObj \<noteq> None \<and> endDateObj \<noteq> None);
          w' = call (if both then Search Calendar i else ReadAll Calendar i) w
      in case cal_events c of
           Unavailable e \<Rightarrow> searchCalendars searchText startDateObj endDateObj (Suc i) cs matchingEvents w'
         | Available es \<Rightarrow>
             (let eventsInCalendar =
                    (if both then filter (whoseBetween (the startDateObj) (the endDateObj)) es else es);
                  filtered = filter (textFilter searchText) eventsInCalendar
              in searchCalendars searchText startDateObj endDateObj (Suc i) cs
                   (matchingEvents @ map (Pair (cal_name c)) filtered) w'))"

text \<open>
  The broader search reads \<open>event.title.toLowerCase()\<close> first for every event, which
  throws a TypeError at an event whose title is null.
\<close>

definition eventMatches :: "host \<Rightarrow> string \<Rightarrow> CalendarEvent \<Rightarrow> bool" where
  "eventMatches h searchText event =
     (includes_str (toLowerCase h (orEmpty (ev_title event))) (toLowerCase h searchText) \<or>
      includes_str (toLowerCase h (ev_description event)) (toLowerCase h searchText) \<or>
      includes_str (toLowerCase h (ev_location event)) (toLowerCase h searchText))"

definition broadFilter :: "host \<Rightarrow> string \<Rightarrow> CalendarEvent list \<Rightarrow> jserror + CalendarEvent list" where
  "broadFilter h searchText allEvents =
     (if list_ex (\<lambda>event. ev_title event = None) allEvents then Inl (JsError (typeErrorText h))
      else Inr (filter (eventMatches h searchText) allEvents))"

definition optISO :: "host \<Rightarrow> jsdate option \<Rightarrow> jserror + int option" where
  "optISO h d = (case d of None \<Rightarrow> Inr None | Some x \<Rightarrow> map_sum (\<lambda>e. e) Some (toISOString h x))"

definition findEvents :: "host \<Rightarrow> string \<Rightarrow> jsdate option \<Rightarrow> jsdate option \<Rightarrow> CalendarEvent list io" where
  "findEvents h searchText startDate endDate =
     rethrow ''Error finding calendar events: ''
       (andThen checkCalendarAccess (\<lambda>ok.
          if \<not> ok then ret []
          else andThen (lift (optISO h startDate)) (\<lambda>startDateStr.
               andThen (lift (optISO h endDate)) (\<lambda>endDateStr w.
                 case searchCalendars searchText startDateStr endDateStr 0 (calendars w) []
                        (call (ListStores Calendar) w) of
                   (matchingEvents, w') \<Rightarrow>
                     (let events = map (toEvent h) matchingEvents in
                      if length events = 0 \<and> startDate = None \<and> endDate = None
                      then andThen (getAllEvents h)
                             (\<lambda>allEvents. lift (broadFilter h searchText allEvents)) w'
                      else (Inr events, w'))))))"

text \<open>
  \<open>createEvent\<close>: the end is \<open>new Date(startDate.getTime() + duration * 60000)\<close>, a
  product and a sum of doubles.
\<close>

definition endOf :: "jsdate \<Rightarrow> rat \<Rightarrow> jsdate" where
  "endOf startDate duration =
     (case startDate of InvalidDate \<Rightarrow> InvalidDate
      | Date t \<Rightarrow> timeClip (toDouble (of_int t + toDouble (duration * 60000))))"

definition pushEvent :: "event_obj \<Rightarrow> string io" where
  "pushEvent ev w =
     (let i = defaultCalendar w; w' = call (Insert Calendar i) w in
      if i < length (calendars w) then
        (let c = calendars w ! i in
         case cal_events c of
           Unavailable e \<Rightarrow> (Inl e, w')
         | Available es \<Rightarrow>
             (Inr (cal_name c),
              w'\<lparr>calendars := (calendars w)[i := c\<lparr>cal_events := Available (es @ [ev])\<rparr>],
                 minted := Suc (minted w)\<rparr>))
      else (Inl (Thrown ''no default calendar''), w'))"

definition createEvent ::
  "host \<Rightarrow> string \<Rightarrow> jsdate \<Rightarrow> rat \<Rightarrow> string \<Rightarrow> string \<Rightarrow> CalendarEvent option io" where
  "createEvent h title startDate duration description location =
     rethrow ''Error creating calendar event: ''
       (andThen checkCalendarAccess (\<lambda>ok.
          if \<not> ok then ret None
          else andThen (lift (toISOString h startDate)) (\<lambda>startDateStr.
               andThen (lift (toISOString h (endOf startDate duration))) (\<lambda>endDateStr w.
                 let event =
                       \<lparr>eo_id = newId h (minted w), eo_summary = Some title,
                        eo_description = Some description, eo_startDate = startDateStr,
                        eo_endDate = endDateStr, eo_location = Some location\<rparr>
                 in andThen (pushEvent event)
                      (\<lambda>cname. ret (Some (toEvent h (cname, event)))) w))))"

section \<open>The request handler\<close>

text \<open>
  The modules \<open>utils/contacts\<close>, \<open>utils/notes\<close> and \<open>utils/message\<close> are called by the
  handler and are parameters here: each call returns its value or throws. They drive
  other applications than the two above, so they leave this state alone.
\<close>

record Message =
  msg_content :: string
  msg_date :: string
  msg_sender :: string
  msg_is_from_me :: bool

record Note =
  note_name :: string
  note_content :: string

record collab =
  findNumber :: "string \<Rightarrow> jserror + string list"
  getAllNumbers :: "jserror + (string \<times> string list) list"
  findContactByPhone :: "string \<Rightarrow> jserror + string option"
  findNote :: "string \<Rightarrow> jserror + Note list"
  getAllNotes :: "jserror + (string \<times> string) list"
  sendMessage :: "string \<Rightarrow> string \<Rightarrow> jserror + unit"
  readMessages :: "string \<Rightarrow> rat option \<Rightarrow> jserror + Message list"
  scheduleMessage :: "string \<Rightarrow> string \<Rightarrow> jsdate \<Rightarrow> jserror + string"
  getUnreadMessages :: "rat option \<Rightarrow> jserror + Message list"

record result =
  content :: string
  isError :: bool

definition ok :: "string \<Rightarrow> result" where
  "ok t = \<lparr>content = t, isError = False\<rparr>"

definition tryCatch :: "'a io \<Rightarrow> (jserror \<Rightarrow> 'a io) \<Rightarrow> 'a io" where
  "tryCatch m f w = (case m w of (Inl e, w') \<Rightarrow> f e w' | (Inr x, w') \<Rightarrow> (Inr x, w'))"

subsection \<open>Building the text of an answer\<close>

definition nl :: string where
  "nl = [CHR 0x0A]"

definition dq :: string where
  "dq = [CHR 0x22]"

definition checkMark :: string where
  "checkMark = [CHR 0xE2, CHR 0x9C, CHR 0x93]"

fun join :: "string \<Rightarrow> string list \<Rightarrow> string" where
  "join sep [] = []"
| "join sep [x] = x"
| "join sep (x # y # ys) = x @ sep @ join sep (y # ys)"

definition digit :: "nat \<Rightarrow> char" where
  "digit d = char_of (48 + d)"

fun showNat :: "nat \<Rightarrow> string" where
  "showNat n = (if n < 10 then [digit n] else showNat (n div 10) @ [digit (n mod 10)])"

definition showDate :: "host \<Rightarrow> string \<Rightarrow> string" where
  "showDate h s = toLocaleString h (parseDate h s)"

definition renderReminder :: "Reminder \<Rightarrow> string" where
  "renderReminder reminder =
     (let status = (if rem_isCompleted reminder then ''['' @ checkMark @ '']'' else ''[ ]'');
          dueInfo = (case rem_dueDate reminder of
                       None \<Rightarrow> []
                     | Some d \<Rightarrow> if d = [] then [] else ''(Due: '' @ d @ '')'')
      in status @ '' [ID: '' @ rem_id reminder @ ''] '' @ rem_title reminder @ '' '' @ dueInfo @ nl @
         (if rem_notes reminder \<noteq> [] then ''Notes: '' @ rem_notes reminder @ nl else []))"

text \<open>A null title prints as the text null inside a template.\<close>

definition renderEvent :: "host \<Rightarrow> CalendarEvent \<Rightarrow> string" where
  "renderEvent h event =
     (let dateRange = showDate h (ev_startDate event) @ '' - '' @ showDate h (ev_endDate event);
          location = (if ev_location event \<noteq> [] then ''Location: '' @ ev_location event @ nl else []);
          desc = (if ev_description event \<noteq> []
                  then ''Description: '' @ ev_description event @ nl else [])
      in ''['' @ ev_calendarName event @ ''] '' @
         (case ev_title event of None \<Rightarrow> ''null'' | Some t \<Rightarrow> t) @ nl @ dateRange @ nl @
         location @ desc)"

definition renderMessage :: "host \<Rightarrow> Message \<Rightarrow> string" where
  "renderMessage h msg =
     ''['' @ showDate h (msg_date msg) @ ''] '' @
     (if msg_is_from_me msg then ''Me'' else msg_sender msg) @ '': '' @ msg_content msg"

subsection \<open>contacts, notes and messages\<close>

definition contactsTool :: "collab \<Rightarrow> jsval \<Rightarrow> result io" where
  "contactsTool c args =
     (if \<not> isContactsArgs args then raise (JsError ''Invalid arguments for contacts tool'')
      else
        tryCatch
          (if truthy (get args ''name'') then
             (let name = strOf (get args ''name'') in
              andThen (lift (findNumber c name)) (\<lambda>numbers.
                ret (ok (if length numbers \<noteq> 0 then name @ '': '' @ join '', '' numbers
                         else ''No contact found for '' @ dq @ name @ dq @
                              ''. Try a different name or use no name parameter to list all contacts.''))))
           else
             andThen (lift (getAllNumbers c)) (\<lambda>allNumbers.
               let contactCount = length allNumbers in
               if contactCount = 0 then
                 ret (ok ''No contacts found in the address book. Please make sure you have granted access to Contacts.'')
               else
                 (let formattedContacts =
                        map (\<lambda>(name, phones). name @ '': '' @ join '', '' phones)
                          (filter (\<lambda>(name, phones). length phones > 0) allNumbers)
                  in ret (ok (if length formattedContacts > 0
                              then ''Found '' @ showNat contactCount @ '' contacts:'' @ nl @ nl @
                                   join nl formattedContacts
                              else ''Found contacts but none have phone numbers. Try searching by name to see more details.'')))))
          (\<lambda>error. ret \<lparr>content = ''Error accessing contacts: '' @ errText error, isError = True\<rparr>))"

definition notesTool :: "collab \<Rightarrow> jsval \<Rightarrow> result io" where
  "notesTool c args =
     (if \<not> isNotesArgs args then raise (JsError ''Invalid arguments for notes tool'')
      else if truthy (get args ''searchText'') then
        (let searchText = strOf (get args ''searchText'') in
         andThen (lift (findNote c searchText)) (\<lambda>foundNotes.
           ret (ok (if length foundNotes \<noteq> 0
                    then join (nl @ nl)
                           (map (\<lambda>note. note_name note @ '':'' @ nl @ note_content note) foundNotes)
                    else ''No notes found for '' @ dq @ searchText @ dq))))
      else
        andThen (lift (getAllNotes c)) (\<lambda>allNotes.
          ret (ok (join (nl @ nl) (map (\<lambda>(name, content). name @ '':'' @ nl @ content) allNotes)))))"

text \<open>
  \<open>Promise.all\<close> over the unread messages: the name of each sender that is not the user
  is looked up, and one failing lookup fails the whole.
\<close>

fun withNames :: "collab \<Rightarrow> Message list \<Rightarrow> jserror + (Message \<times> string) list" where
  "withNames c [] = Inr []"
| "withNames c (msg # msgs) =
     (if \<not> msg_is_from_me msg then
        (case findContactByPhone c (msg_sender msg) of
           Inl e \<Rightarrow> Inl e
         | Inr contactName \<Rightarrow>
             (case withNames c msgs of
                Inl e \<Rightarrow> Inl e
              | Inr rest \<Rightarrow>
                  Inr ((msg, (case contactName of
                                None \<Rightarrow> msg_sender msg
                              | Some n \<Rightarrow> if n = [] then msg_sender msg else n)) # rest)))
      else
        (case withNames c msgs of
           Inl e \<Rightarrow> Inl e
         | Inr rest \<Rightarrow> Inr ((msg, ''Me'') # rest)))"

definition messagesTool :: "host \<Rightarrow> collab \<Rightarrow> jsval \<Rightarrow> result io" where
  "messagesTool h c args =
     (if \<not> isMessagesArgs args then raise (JsError ''Invalid arguments for messages tool'')
      else
        let operation = get args ''operation'';
            phoneNumber = get args ''phoneNumber'';
            message = get args ''message'';
            limit = numOf (get args ''limit'');
            scheduledTime = get args ''scheduledTime''
        in
        if isStr operation ''send'' then
          (if \<not> truthy phoneNumber \<or> \<not> truthy message
           then raise (JsError ''Phone number and message are required for send operation'')
           else andThen (lift (sendMessage c (strOf phoneNumber) (strOf message)))
                  (\<lambda>_. ret (ok (''Message sent to '' @ strOf phoneNumber))))
        else if isStr operation ''read'' then
          (if \<not> truthy phoneNumber
           then raise (JsError ''Phone number is required for read operation'')
           else andThen (lift (readMessages c (strOf phoneNumber) limit)) (\<lambda>messages.
                  ret (ok (if length messages > 0 then join nl (map (renderMessage h) messages)
                           else ''No messages found''))))
        else if isStr operation ''schedule'' then
          (if \<not> truthy phoneNumber \<or> \<not> truthy message \<or> \<not> truthy scheduledTime
           then raise (JsError ''Phone number, message, and scheduled time are required for schedule operation'')
           else andThen (lift (scheduleMessage c (strOf phoneNumber) (strOf message)
                                 (parseDate h (strOf scheduledTime))))
                  (\<lambda>scheduledAt.
                     ret (ok (''Message scheduled to be sent to '' @ strOf phoneNumber @ '' at '' @
                              scheduledAt))))
        else if isStr operation ''unread'' then
          andThen (lift (getUnreadMessages c limit)) (\<lambda>messages.
          andThen (lift (withNames c messages)) (\<lambda>messagesWithNames.
            ret (ok (if length messagesWithNames > 0
                     then ''Found '' @ showNat (length messagesWithNames) @ '' unread message(s):'' @ nl @
                          join (nl @ nl)
                            (map (\<lambda>(msg, displayName).
                                    ''['' @ showDate h (msg_date msg) @ ''] From '' @ displayName @
                                    '':'' @ nl @ msg_content msg)
                               messagesWithNames)
                     else ''No unread messages found''))))
        else raise (JsError (''Unknown operation: '' @ strOf operation)))"

subsection \<open>reminders and calendar\<close>

definition remindersTool :: "host \<Rightarrow> jsval \<Rightarrow> result io" where
  "remindersTool h args =
     (if \<not> isRemindersArgs args then raise (JsError ''Invalid arguments for reminders tool'')
      else
        let operation = get args ''operation'' in
        if isStr operation ''list'' then
          andThen (getAllReminders h) (\<lambda>allReminders.
            ret (ok (if length allReminders > 0
                     then ''Found '' @ showNat (length allReminders) @ '' reminders:'' @ nl @ nl @
                          join (nl @ nl) (map renderReminder allReminders)
                     else ''No reminders found'')))
        else if isStr operation ''find'' then
          (if \<not> truthy (get args ''searchText'')
           then raise (JsError ''Search text is required for find operation'')
           else
             (let searchText = strOf (get args ''searchText'') in
              andThen (findReminders h searchText) (\<lambda>foundReminders.
                ret (ok (if length foundReminders > 0
                         then ''Found '' @ showNat (length foundReminders) @
                              '' matching reminders:'' @ nl @ nl @
                              join (nl @ nl) (map renderReminder foundReminders)
                         else ''No reminders found matching '' @ dq @ searchText @ dq)))))
        else if isStr operation ''create'' then
          (if \<not> truthy (get args ''title'')
           then raise (JsError ''Title is required for create operation'')
           else
             (let dueDate = (if truthy (get args ''dueDate'')
                             then Some (parseDate h (strOf (get args ''dueDate''))) else None);
                  notes = (if truthy (get args ''notes'') then strOf (get args ''notes'') else [])
              in andThen (createReminder h (strOf (get args ''title'')) notes dueDate)
                   (\<lambda>newReminder.
                      case newReminder of
                        None \<Rightarrow> raise (JsError ''Failed to create reminder'')
                      | Some r \<Rightarrow>
                          ret (ok (''Reminder created: '' @ dq @ rem_title r @ dq @
                                   (case rem_dueDate r of
                                      None \<Rightarrow> []
                                    | Some d \<Rightarrow> if d = [] then [] else '' (Due: '' @ d @ '')''))))))
        else if isStr operation ''complete'' then
          (if \<not> truthy (get args ''id'')
           then raise (JsError ''Reminder ID is required for complete operation'')
           else
             andThen (completeReminder (strOf (get args ''id''))) (\<lambda>success.
               ret \<lparr>content = (if success then ''Reminder marked as completed''
                                else ''Failed to complete reminder. ID '' @ strOf (get args ''id'') @
                                     '' not found.''),
                    isError = (\<not> success)\<rparr>))
        else raise (JsError (''Unknown operation: '' @ strOf operation)))"

definition calendarTool :: "host \<Rightarrow> jsval \<Rightarrow> result io" where
  "calendarTool h args =
     (if \<not> isCalendarArgs args then raise (JsError ''Invalid arguments for calendar tool'')
      else
        let operation = get args ''operation'' in
        if isStr operation ''list'' then
          andThen (getAllEvents h) (\<lambda>allEvents.
            ret (ok (if length allEvents > 0
                     then ''Found '' @ showNat (length allEvents) @ '' calendar events:'' @ nl @ nl @
                          join (nl @ nl) (map (renderEvent h) allEvents)
                     else ''No calendar events found'')))
        else if isStr operation ''find'' then
          (if \<not> truthy (get args ''searchText'')
           then raise (JsError ''Search text is required for find operation'')
           else
             (let searchText = strOf (get args ''searchText'');
                  startDate = (if truthy (get args ''startDate'')
                               then Some (parseDate h (strOf (get args ''startDate''))) else None);
                  endDate = (if truthy (get args ''endDate'')
                             then Some (parseDate h (strOf (get args ''endDate''))) else None)
              in andThen (findEvents h searchText startDate endDate) (\<lambda>foundEvents.
                   ret (ok (if length foundEvents > 0
                            then ''Found '' @ showNat (length foundEvents) @
                                 '' matching events:'' @ nl @ nl @
                                 join (nl @ nl) (map (renderEvent h) foundEvents)
                            else ''No calendar events found matching '' @ dq @ searchText @ dq)))))
        else if isStr operation ''create'' then
          (if \<not> truthy (get args ''title'') \<or> \<not> truthy (get args ''startDate'') \<or>
              \<not> truthy (get args ''duration'')
           then raise (JsError ''Title, start date, and duration are required for create operation'')
           else
             (let startDate = parseDate h (strOf (get args ''startDate''));
                  description = (if truthy (get args ''description'')
                                 then strOf (get args ''description'') else []);
                  location = (if truthy (get args ''location'')
                              then strOf (get args ''location'') else [])
              in andThen (createEvent h (strOf (get args ''title'')) startDate
                            (case numOf (get args ''duration'') of Some d \<Rightarrow> d | None \<Rightarrow> 0)
                            description location)
                   (\<lambda>newEvent.
                      case newEvent of
                        None \<Rightarrow> raise (JsError ''Failed to create calendar event'')
                      | Some e \<Rightarrow>
                          (let dateRange = showDate h (ev_startDate e) @ '' - '' @
                                           showDate h (ev_endDate e)
                           in ret (ok (''Calendar event created: '' @ dq @
                                       (case ev_title e of None \<Rightarrow> ''null'' | Some t \<Rightarrow> t) @ dq @
                                       nl @ dateRange @
                                       (if ev_location e \<noteq> []
                                        then nl @ ''Location: '' @ ev_location e else [])))))))
        else raise (JsError (''Unknown operation: '' @ strOf operation)))"

subsection \<open>The handler of a tool call\<close>

text \<open>
  \<open>handlerBody\<close> is the \<open>try\<close> block, \<open>handler\<close> the whole callback: what it returns is
  how the promise of the callback settles, \<open>Inr\<close> a result or \<open>Inl\<close> a rejection.
\<close>

definition handlerBody :: "host \<Rightarrow> collab \<Rightarrow> string \<Rightarrow> jsval \<Rightarrow> result io" where
  "handlerBody h c name args =
     (if \<not> truthy args then raise (JsError ''No arguments provided'')
      else if name = ''contacts'' then contactsTool c args
      else if name = ''notes'' then notesTool c args
      else if name = ''messages'' then messagesTool h c args
      else if name = ''reminders'' then remindersTool h args
      else if name = ''calendar'' then calendarTool h args
      else ret \<lparr>content = ''Unknown tool: '' @ name, isError = True\<rparr>)"

definition handler :: "host \<Rightarrow> collab \<Rightarrow> string \<Rightarrow> jsval \<Rightarrow> result io" where
  "handler h c name args =
     tryCatch (handlerBody h c name args)
       (\<lambda>error. ret \<lparr>content = ''Error: '' @ errText error, isError = True\<rparr>)"

section \<open>A reference host\<close>

text \<open>
  One concrete host, on which the statements below are run: a machine in the UTC time
  zone whose texts are ASCII. \<open>toString\<close> prints a date as ECMAScript lays down
  (weekday, month, day, year, time, offset and the zone's name). \<open>new Date\<close> reads the
  date-time format of ECMAScript (a year, then optionally month and day, then
  optionally \<open>T\<close>, a time and a zone; a day up to 31 runs over into the next month) and
  what \<open>toString\<close> prints; the other notations, which a runtime reads by rules of its
  own, do not occur in the examples and are invalid here. \<open>toLowerCase\<close> folds the
  letters A to Z, which is all there is to fold in an ASCII text. The Reminders query
  compares text as it is.
\<close>

definition daysFromCivil :: "int \<Rightarrow> int \<Rightarrow> int \<Rightarrow> int" where
  "daysFromCivil y m d =
     (let y' = (if m \<le> 2 then y - 1 else y);
          era = y' div 400;
          yoe = y' - era * 400;
          doy = (153 * (if m > 2 then m - 3 else m + 9) + 2) div 5 + d - 1;
          doe = yoe * 365 + yoe div 4 - yoe div 100 + doy
      in era * 146097 + doe - 719468)"

definition civilFromDays :: "int \<Rightarrow> int \<times> int \<times> int" where
  "civilFromDays z0 =
     (let z = z0 + 719468;
          era = z div 146097;
          doe = z - era * 146097;
          yoe = (doe - doe div 1460 + doe div 36524 - doe div 146096) div 365;
          doy = doe - (365 * yoe + yoe div 4 - yoe div 100);
          mp = (5 * doy + 2) div 153;
          d = doy - (153 * mp + 2) div 5 + 1;
          m = (if mp < 10 then mp + 3 else mp - 9);
          y = yoe + era * 400
      in (if m \<le> 2 then y + 1 else y, m, d))"

definition isDigit :: "char \<Rightarrow> bool" where
  "isDigit ch = (let n = (of_char ch :: nat) in 48 \<le> n \<and> n \<le> 57)"

definition readNat :: "string \<Rightarrow> nat option" where
  "readNat s =
     (if s \<noteq> [] \<and> list_all isDigit s
      then Some (foldl (\<lambda>acc ch. 10 * acc + (of_char ch - 48)) 0 s) else None)"

definition pad :: "nat \<Rightarrow> nat \<Rightarrow> string" where
  "pad width n = (let s = showNat n in replicate (width - length s) CHR ''0'' @ s)"

definition monthNames :: "string list" where
  "monthNames = [''Jan'', ''Feb'', ''Mar'', ''Apr'', ''May'', ''Jun'',
                 ''Jul'', ''Aug'', ''Sep'', ''Oct'', ''Nov'', ''Dec'']"

definition dayNames :: "string list" where
  "dayNames = [''Sun'', ''Mon'', ''Tue'', ''Wed'', ''Thu'', ''Fri'', ''Sat'']"

text \<open>
  The time value of a calendar date and a time of day, \<open>off\<close> minutes ahead of UTC. The
  day counts on from the first of the month, so the 30th of February is the 1st of
  March; 24:00:00 is the end of the day.
\<close>

definition makeTime :: "nat \<Rightarrow> nat \<Rightarrow> nat \<Rightarrow> nat \<Rightarrow> nat \<Rightarrow> nat \<Rightarrow> nat \<Rightarrow> int \<Rightarrow> jsdate" where
  "makeTime y m d hh mm ss ms off =
     (if 1 \<le> m \<and> m \<le> 12 \<and> 1 \<le> d \<and> d \<le> 31 \<and> mm < 60 \<and> ss < 60 \<and>
         (hh < 24 \<or> (hh = 24 \<and> mm = 0 \<and> ss = 0 \<and> ms = 0))
      then Date ((daysFromCivil (int y) (int m) 1 + int d - 1) * 86400000 +
                 int (((hh * 60 + mm) * 60 + ss) * 1000 + ms) - off * 60000)
      else InvalidDate)"

definition utcToString :: "int \<Rightarrow> string" where
  "utcToString t =
     (let day = t div 86400000;
          s = nat ((t mod 86400000) div 1000);
          wd = nat ((day + 4) mod 7)
      in case civilFromDays day of (y, m, d) \<Rightarrow>
           dayNames ! wd @ '' '' @ monthNames ! nat (m - 1) @ '' '' @ pad 2 (nat d) @ '' '' @
           (if y < 0 then ''-'' else []) @ pad 4 (nat \<bar>y\<bar>) @ '' '' @
           pad 2 (s div 3600) @ '':'' @ pad 2 (s div 60 mod 60) @ '':'' @ pad 2 (s mod 60) @
           '' GMT+0000 (Coordinated Universal Time)'')"

fun indexOf :: "'a \<Rightarrow> 'a list \<Rightarrow> nat option" where
  "indexOf x [] = None"
| "indexOf x (y # ys) = (if x = y then Some 0 else map_option Suc (indexOf x ys))"

text \<open>\<open>takeNat k s\<close> reads a number of exactly \<open>k\<close> digits off the front of \<open>s\<close>.\<close>

definition takeNat :: "nat \<Rightarrow> string \<Rightarrow> (nat \<times> string) option" where
  "takeNat k s =
     (if k \<le> length s then map_option (\<lambda>n. (n, drop k s)) (readNat (take k s)) else None)"

text \<open>The zone: none (local time, which is UTC here), \<open>Z\<close>, or hours and minutes ahead or behind.\<close>

definition parseZone :: "string \<Rightarrow> int option" where
  "parseZone z =
     (if z = [] \<or> z = ''Z'' then Some 0
      else if length z = 6 \<and> (hd z = CHR ''+'' \<or> hd z = CHR ''-'') \<and> z ! 3 = CHR '':'' then
        (case (readNat (take 2 (drop 1 z)), readNat (drop 4 z)) of
           (Some zh, Some zm) \<Rightarrow>
             if zh < 24 \<and> zm < 60
             then Some ((if hd z = CHR ''+'' then 1 else - 1) * int (zh * 60 + zm)) else None
         | _ \<Rightarrow> None)
      else None)"

text \<open>
  The time of day: hours and minutes, then optionally seconds, then optionally a
  fraction of which the first three digits are the milliseconds; what follows is the
  zone.
\<close>

definition parseClock :: "string \<Rightarrow> (nat \<times> nat \<times> nat \<times> nat \<times> string) option" where
  "parseClock s =
     (case takeNat 2 s of
        None \<Rightarrow> None
      | Some (hh, r1) \<Rightarrow>
          if r1 = [] \<or> hd r1 \<noteq> CHR '':'' then None
          else
            (case takeNat 2 (tl r1) of
               None \<Rightarrow> None
             | Some (mm, r2) \<Rightarrow>
                 if r2 = [] \<or> hd r2 \<noteq> CHR '':'' then Some (hh, mm, 0, 0, r2)
                 else
                   (case takeNat 2 (tl r2) of
                      None \<Rightarrow> None
                    | Some (ss, r3) \<Rightarrow>
                        if r3 = [] \<or> hd r3 \<noteq> CHR ''.'' then Some (hh, mm, ss, 0, r3)
                        else
                          (let frac = takeWhile isDigit (tl r3)
                           in case readNat (take 3 (frac @ ''00'')) of
                                None \<Rightarrow> None
                              | Some ms \<Rightarrow> Some (hh, mm, ss, ms, dropWhile isDigit (tl r3))))))"

text \<open>The date: four digits of year, then optionally the month, then optionally the day.\<close>

definition parseCalendarDate :: "string \<Rightarrow> (nat \<times> nat \<times> nat \<times> string) option" where
  "parseCalendarDate s =
     (case takeNat 4 s of
        None \<Rightarrow> None
      | Some (y, r1) \<Rightarrow>
          if r1 = [] \<or> hd r1 \<noteq> CHR ''-'' then Some (y, 1, 1, r1)
          else
            (case takeNat 2 (tl r1) of
               None \<Rightarrow> None
             | Some (m, r2) \<Rightarrow>
                 if r2 = [] \<or> hd r2 \<noteq> CHR ''-'' then Some (y, m, 1, r2)
                 else map_option (\<lambda>(d, r3). (y, m, d, r3)) (takeNat 2 (tl r2))))"

definition parseISO :: "string \<Rightarrow> jsdate" where
  "parseISO s =
     (case parseCalendarDate s of
        None \<Rightarrow> InvalidDate
      | Some (y, m, d, r) \<Rightarrow>
          if r = [] then makeTime y m d 0 0 0 0 0
          else if hd r \<noteq> CHR ''T'' then InvalidDate
          else
            (case parseClock (tl r) of
               None \<Rightarrow> InvalidDate
             | Some (hh, mm, ss, ms, z) \<Rightarrow>
                 (case parseZone z of
                    None \<Rightarrow> InvalidDate
                  | Some off \<Rightarrow> makeTime y m d hh mm ss ms off)))"

definition parsePrinted :: "string \<Rightarrow> jsdate" where
  "parsePrinted s =
     (if length s \<ge> 33 \<and> s ! 3 = CHR '' '' \<and> s ! 7 = CHR '' '' \<and> s ! 10 = CHR '' '' \<and>
         s ! 15 = CHR '' '' \<and> s ! 18 = CHR '':'' \<and> s ! 21 = CHR '':'' \<and>
         take 9 (drop 24 s) = '' GMT+0000''
      then
        (case (indexOf (take 3 (drop 4 s)) monthNames, readNat (take 2 (drop 8 s)),
               readNat (take 4 (drop 11 s)), readNat (take 2 (drop 16 s)),
               readNat (take 2 (drop 19 s)), readNat (take 2 (drop 22 s))) of
           (Some m, Some d, Some y, Some hh, Some mm, Some ss) \<Rightarrow> makeTime y (Suc m) d hh mm ss 0 0
         | _ \<Rightarrow> InvalidDate)
      else InvalidDate)"

definition utcParse :: "string \<Rightarrow> jsdate" where
  "utcParse s = (case parseISO s of Date t \<Rightarrow> Date t | InvalidDate \<Rightarrow> parsePrinted s)"

definition utcLocale :: "jsdate \<Rightarrow> string" where
  "utcLocale d =
     (case d of
        InvalidDate \<Rightarrow> ''Invalid Date''
      | Date t \<Rightarrow>
          (let day = t div 86400000; s = nat ((t mod 86400000) div 1000); hh = s div 3600
           in case civilFromDays day of (y, m, dd) \<Rightarrow>
                showNat (nat m) @ ''/'' @ showNat (nat dd) @ ''/'' @ showNat (nat y) @ '', '' @
                showNat (if hh mod 12 = 0 then 12 else hh mod 12) @ '':'' @
                pad 2 (s div 60 mod 60) @ '':'' @ pad 2 (s mod 60) @
                (if hh < 12 then '' AM'' else '' PM'')))"

definition asciiLower :: "string \<Rightarrow> string" where
  "asciiLower s =
     map (\<lambda>c. let n = (of_char c :: nat) in if 65 \<le> n \<and> n \<le> 90 then char_of (n + 32) else c) s"

definition utcHost :: host where
  "utcHost =
     \<lparr>parseDate = utcParse,
      dateToString = utcToString,
      toLocaleString = utcLocale,
      toLowerCase = asciiLower,
      rangeErrorText = ''Invalid time value'',
      typeErrorText = ''null is not an object'',
      nativeContains = (\<lambda>field searchText. includes_str field searchText),
      newId = (\<lambda>n. ''x-apple-reminder://'' @ showNat n)\<rparr>"

section \<open>Notions the statements use\<close>

text \<open>
  A source is available when it answers. \<open>sourceEvents\<close> is what one calendar
  contributes to an enumeration (nothing when it raises), each event beside the name
  of its calendar; \<open>sourceMatches\<close> what it contributes to a strict search.
\<close>

definition available :: "calendar_src \<Rightarrow> bool" where
  "available c = (case cal_events c of Available es \<Rightarrow> True | Unavailable e \<Rightarrow> False)"

definition sourceEvents :: "calendar_src \<Rightarrow> (string \<times> event_obj) list" where
  "sourceEvents c =
     (case cal_events c of Available es \<Rightarrow> map (Pair (cal_name c)) es | Unavailable e \<Rightarrow> [])"

definition inRange :: "int option \<Rightarrow> int option \<Rightarrow> event_obj \<Rightarrow> bool" where
  "inRange s e ev = (case (s, e) of (Some a, Some b) \<Rightarrow> whoseBetween a b ev | _ \<Rightarrow> True)"

definition sourceMatches ::
  "string \<Rightarrow> int option \<Rightarrow> int option \<Rightarrow> calendar_src \<Rightarrow> (string \<times> event_obj) list" where
  "sourceMatches searchText s e c =
     filter (\<lambda>ce. textFilter searchText (snd ce))
       (filter (\<lambda>ce. inRange s e (snd ce)) (sourceEvents c))"

text \<open>
  The bridge calls of one pass over \<open>n\<close> calendars: the probe, the list of calendars,
  then one call per calendar, a date query when both bounds are there and a plain read
  otherwise.
\<close>

definition strictCalls :: "bool \<Rightarrow> nat \<Rightarrow> nat \<Rightarrow> bridge_call list" where
  "strictCalls both i n =
     map (\<lambda>k. if both then Search Calendar k else ReadAll Calendar k) [i..<i + n]"

definition strictLog :: "bool \<Rightarrow> nat \<Rightarrow> bridge_call list" where
  "strictLog both n = [Probe Calendar, ListStores Calendar] @ strictCalls both 0 n"

text \<open>
  The reading of the specification's date filter: the range from \<open>s\<close> to \<open>e\<close>, ends
  included, meets the interval of the event.
\<close>

definition intersectsRange :: "int \<Rightarrow> int \<Rightarrow> event_obj \<Rightarrow> bool" where
  "intersectsRange s e ev = (eo_startDate ev \<le> e \<and> s \<le> eo_endDate ev)"

subsection \<open>Example states\<close>

definition standup :: event_obj where
  "standup =
     \<lparr>eo_id = ''E1'', eo_summary = Some ''Standup'', eo_description = Some ''Daily sync'',
      eo_startDate = 1704099600000, eo_endDate = 1704103200000, eo_location = Some ''Room 4''\<rparr>"

definition dentist :: event_obj where
  "dentist =
     \<lparr>eo_id = ''E2'', eo_summary = Some ''Dentist'', eo_description = None,
      eo_startDate = 1704186000000, eo_endDate = 1704189600000, eo_location = None\<rparr>"

definition review :: event_obj where
  "review =
     \<lparr>eo_id = ''E3'', eo_summary = Some ''Design review'', eo_description = Some ''standup follow-up'',
      eo_startDate = 1704207600000, eo_endDate = 1704211200000, eo_location = Some ''Room 4''\<rparr>"

definition milk :: reminder_obj where
  "milk =
     \<lparr>ro_id = ''R1'', ro_name = ''Buy milk'', ro_body = None, ro_dueDate = None,
      ro_completed = False\<rparr>"

definition taxes :: reminder_obj where
  "taxes =
     \<lparr>ro_id = ''R2'', ro_name = ''File taxes'', ro_body = Some ''before April'',
      ro_dueDate = Some 1704103200000, ro_completed = False\<rparr>"

text \<open>
  \<open>office\<close>: two reminder lists and three calendars, the second of which raises.
  \<open>allDown\<close>: the same with every calendar raising. \<open>locked\<close>: no access granted.
\<close>

definition office :: world where
  "office =
     \<lparr>remindersAccess = True, calendarAccess = True,
      lists = [Available [milk], Available [taxes]], defaultList = 0,
      calendars = [\<lparr>cal_name = ''Work'', cal_events = Available [standup, review]\<rparr>,
                   \<lparr>cal_name = ''Shared'', cal_events = Unavailable (Thrown ''Not authorized'')\<rparr>,
                   \<lparr>cal_name = ''Home'', cal_events = Available [dentist]\<rparr>],
      defaultCalendar = 0, minted = 0, log = []\<rparr>"

definition allDown :: world where
  "allDown =
     office\<lparr>calendars := [\<lparr>cal_name = ''Work'', cal_events = Unavailable (Thrown ''Not authorized'')\<rparr>,
                           \<lparr>cal_name = ''Home'', cal_events = Unavailable (Thrown ''Not authorized'')\<rparr>]\<rparr>"

definition locked :: world where
  "locked = office\<lparr>remindersAccess := False, calendarAccess := False\<rparr>"

subsection \<open>Reminder lists\<close>

text \<open>
  The items of a store that answers, the first store of a list that raises (with its
  position and what it raises), and the calls \<open>c i, \<dots>, c (i + n - 1)\<close> of a loop.
\<close>

definition items :: "'a store \<Rightarrow> 'a list" where
  "items s = (case s of Available xs \<Rightarrow> xs | Unavailable e \<Rightarrow> [])"


fun firstDown :: "'a store list \<Rightarrow> (nat \<times> jserror) option" where
  "firstDown [] = None"
| "firstDown (Unavailable e # ls) = Some (0, e)"
| "firstDown (Available xs # ls) = map_option (\<lambda>(k, e). (Suc k, e)) (firstDown ls)"

definition callRange :: "(nat \<Rightarrow> bridge_call) \<Rightarrow> nat \<Rightarrow> nat \<Rightarrow> bridge_call list" where
  "callRange c i n = map c [i..<i + n]"

text \<open>
  Every pass over the sources of a domain starts with the probe of that domain. The
  first pass of a find is the strict search; \<open>fallbackRuns\<close> counts the passes after it
  among the calls that one find has made.
\<close>

definition fallbackRuns :: "domain \<Rightarrow> bridge_call list \<Rightarrow> nat" where
  "fallbackRuns d calls = count_list calls (Probe d) - 1"

definition delegated :: "bridge_call list \<Rightarrow> nat" where
  "delegated calls = length (filter (\<lambda>c. case c of Search d i \<Rightarrow> True | _ \<Rightarrow> False) calls)"

subsection \<open>Access denied\<close>

text \<open>
  The paths of the two privacy settings, and the outcome of an operation stopped by
  the probe: an error whose message contains the path, and a state that differs from
  the one before only by the probe in the log.
\<close>

definition remindersPath :: string where
  "remindersPath = ''System Preferences > Security & Privacy > Privacy > Reminders''"

definition calendarPath :: string where
  "calendarPath = ''System Preferences > Security & Privacy > Privacy > Calendars''"

definition deniedOutcome :: "domain \<Rightarrow> world \<Rightarrow> (jserror + 'a) \<times> world \<Rightarrow> bool" where
  "deniedOutcome d w r =
     (snd r = call (Probe d) w \<and>
      (case fst r of
         Inl (JsError msg) \<Rightarrow>
           includes_str msg (case d of Reminders \<Rightarrow> remindersPath | Calendar \<Rightarrow> calendarPath)
       | _ \<Rightarrow> False))"

subsection \<open>Completing a reminder\<close>


fun locate :: "string \<Rightarrow> reminder_obj store list \<Rightarrow> (nat \<times> nat) option" where
  "locate ident [] = None"
| "locate ident (l # ls) =
     (case firstWithId ident (items l) of
        Some j \<Rightarrow> Some (0, j)
      | None \<Rightarrow> map_option (\<lambda>(i, j). (Suc i, j)) (locate ident ls))"

definition noSuchId :: "string \<Rightarrow> reminder_obj store list \<Rightarrow> bool" where
  "noSuchId ident ls = list_all (\<lambda>l. list_all (\<lambda>r. ro_id r \<noteq> ident) (items l)) ls"

text \<open>\<open>offline\<close>: the contacts, notes and messages modules with every call failing.\<close>

definition offline :: collab where
  "offline =
     \<lparr>findNumber = (\<lambda>name. Inl (Thrown ''offline'')),
      getAllNumbers = Inl (Thrown ''offline''),
      findContactByPhone = (\<lambda>phone. Inl (Thrown ''offline'')),
      findNote = (\<lambda>searchText. Inl (Thrown ''offline'')),
      getAllNotes = Inl (Thrown ''offline''),
      sendMessage = (\<lambda>phone message. Inl (Thrown ''offline'')),
      readMessages = (\<lambda>phone limit. Inl (Thrown ''offline'')),
      scheduleMessage = (\<lambda>phone message time. Inl (Thrown ''offline'')),
      getUnreadMessages = (\<lambda>limit. Inl (Thrown ''offline''))\<rparr>"

subsection \<open>Answers of the handler\<close>

text \<open>
  A call has failed cleanly when the handler's promise is fulfilled with a result whose
  \<open>isError\<close> is set. The tools the handler knows, and the operations of the three
  tools that have them.
\<close>

definition failed :: "(jserror + result) \<times> world \<Rightarrow> bool" where
  "failed r = (case fst r of Inr res \<Rightarrow> isError res | Inl e \<Rightarrow> False)"

definition knownTools :: "string list" where
  "knownTools = [''contacts'', ''notes'', ''messages'', ''reminders'', ''calendar'']"

definition operationsOf :: "string \<Rightarrow> string list" where
  "operationsOf name =
     (if name = ''messages'' then [''send'', ''read'', ''schedule'', ''unread'']
      else if name = ''reminders'' then [''list'', ''find'', ''create'', ''complete'']
      else if name = ''calendar'' then [''list'', ''find'', ''create'']
      else [])"

definition listArgs :: jsval where
  "listArgs = Some (JObj [(''operation'', JStr ''list'')])"

text \<open>\<open>brokenList\<close>: the office with a second reminder list that raises.\<close>

definition brokenList :: world where
  "brokenList = office\<lparr>lists := [Available [milk], Unavailable (Thrown ''Connection is invalid'')]\<rparr>"

subsection \<open>The table of required fields\<close>

text \<open>
  The required fields of each operation, the fields whose type a guard looks at, and
  the primitive type of each field, as the table of the specification and the tool
  descriptions give them.
\<close>

definition requiredFields :: "string \<Rightarrow> string \<Rightarrow> string list" where
  "requiredFields tool operation =
     (if tool = ''messages'' then
        (if operation = ''send'' then [''phoneNumber'', ''message'']
         else if operation = ''read'' then [''phoneNumber'']
         else if operation = ''schedule'' then [''phoneNumber'', ''message'', ''scheduledTime'']
         else [])
      else if tool = ''reminders'' then
        (if operation = ''find'' then [''searchText'']
         else if operation = ''create'' then [''title'']
         else if operation = ''complete'' then [''id'']
         else [])
      else if tool = ''calendar'' then
        (if operation = ''find'' then [''searchText'']
         else if operation = ''create'' then [''title'', ''startDate'', ''duration'']
         else [])
      else [])"

definition fieldsOf :: "string \<Rightarrow> string list" where
  "fieldsOf tool =
     (if tool = ''messages'' then [''phoneNumber'', ''message'', ''limit'', ''scheduledTime'']
      else if tool = ''reminders'' then [''searchText'', ''title'', ''notes'', ''dueDate'', ''id'']
      else if tool = ''calendar'' then
        [''searchText'', ''startDate'', ''endDate'', ''title'', ''description'', ''location'', ''duration'']
      else [])"

definition fieldType :: "string \<Rightarrow> string" where
  "fieldType f = (if f = ''limit'' \<or> f = ''duration'' then ''number'' else ''string'')"

text \<open>
  The claim's reading of a well-formed argument set: every required field of the
  operation is there with its primitive type, a number being any number from zero up.
\<close>

definition suppliesRequired :: "string \<Rightarrow> string \<Rightarrow> jsval \<Rightarrow> bool" where
  "suppliesRequired tool operation args =
     (get args ''operation'' = Some (JStr operation) \<and>
      list_all (\<lambda>f. case get args f of
                        Some (JStr s) \<Rightarrow> fieldType f = ''string''
                      | Some (JNum n) \<Rightarrow> fieldType f = ''number'' \<and> 0 \<le> n
                      | _ \<Rightarrow> False)
        (requiredFields tool operation))"

text \<open>
  What the guards do: the operation is one of the tool's, every required field is
  truthy, and every field of the tool that is truthy has its primitive type.
\<close>

definition accepts :: "string \<Rightarrow> jsval \<Rightarrow> bool" where
  "accepts tool args =
     (typeof args = ''object'' \<and> args \<noteq> Some JNull \<and>
      oneOf (operationsOf tool) (get args ''operation'') \<and>
      list_all (\<lambda>f. truthy (get args f))
        (requiredFields tool (strOf (get args ''operation''))) \<and>
      list_all (\<lambda>f. \<not> truthy (get args f) \<or> typeof (get args f) = fieldType f) (fieldsOf tool))"

definition toolGuard :: "string \<Rightarrow> jsval \<Rightarrow> bool" where
  "toolGuard tool args =
     (if tool = ''messages'' then isMessagesArgs args
      else if tool = ''reminders'' then isRemindersArgs args
      else isCalendarArgs args)"

text \<open>A request for an event of no length, and one for an event without a title.\<close>

definition zeroLength :: jsval where
  "zeroLength =
     Some (JObj [(''operation'', JStr ''create''), (''title'', JStr ''Standup''),
                 (''startDate'', JStr ''2024-01-01T09:00:00.000Z''), (''duration'', JNum 0)])"

definition halfHour :: jsval where
  "halfHour =
     Some (JObj [(''operation'', JStr ''create''), (''title'', JStr ''Standup''),
                 (''startDate'', JStr ''2024-01-01T09:00:00.000Z''), (''duration'', JNum 30)])"

definition untitled :: jsval where
  "untitled =
     Some (JObj [(''operation'', JStr ''create''),
                 (''startDate'', JStr ''2024-01-01T09:00:00.000Z''), (''duration'', JNum 30)])"

subsection \<open>Dates handed to a find\<close>

text \<open>The time value of a date that was supplied and is valid.\<close>

definition instant :: "jsdate option \<Rightarrow> int option" where
  "instant d = (case d of Some (Date t) \<Rightarrow> Some t | _ \<Rightarrow> None)"

text \<open>
  \<open>untitledOffice\<close>: the office with a stand-up that has no summary as the only event
  of the first calendar.
\<close>

definition untitledOffice :: world where
  "untitledOffice =
     office\<lparr>calendars :=
              [\<lparr>cal_name = ''Work'', cal_events = Available [standup\<lparr>eo_summary := None\<rparr>]\<rparr>,
               \<lparr>cal_name = ''Shared'', cal_events = Unavailable (Thrown ''Not authorized'')\<rparr>,
               \<lparr>cal_name = ''Home'', cal_events = Available [dentist]\<rparr>]\<rparr>"



section \<open>Facts about the loops and the calendar module\<close>

lemma andThen_simps:
  "andThen (ret x) f w = f x w"
  "andThen (raise e) f w = (Inl e, w)"
  "andThen (lift (Inr x)) f w = f x w"
  "andThen (lift (Inl e)) f w = (Inl e, w)"
  by (simp_all add: andThen_def ret_def raise_def lift_def)

lemma log_call: "log (call c w) = log w @ [c]"
  and calendars_call: "calendars (call c w) = calendars w"
  and lists_call: "lists (call c w) = lists w"
  and access_call: "calendarAccess (call c w) = calendarAccess w" "remindersAccess (call c w) = remindersAccess w"
  and misc_call: "defaultList (call c w) = defaultList w" "defaultCalendar (call c w) = defaultCalendar w" "minted (call c w) = minted w"
  by (simp_all add: call_def)

lemma readCalendars_fst:
  "fst (readCalendars i cs acc w) = acc @ concat (map sourceEvents cs)"
  by (induction cs arbitrary: i acc w) (auto simp: sourceEvents_def split: store.splits)

lemma searchCalendars_fst:
  "fst (searchCalendars t s e i cs acc w) = acc @ concat (map (sourceMatches t s e) cs)"
proof (induction cs arbitrary: i acc w)
  case Nil
  then show ?case by simp
next
  case (Cons c cs)
  show ?case
  proof (cases "cal_events c")
    case (Unavailable x)
    then show ?thesis using Cons by (simp add: sourceMatches_def sourceEvents_def Let_def)
  next
    case (Available es)
    then show ?thesis using Cons
      by (cases s; cases e) (simp_all add: sourceMatches_def sourceEvents_def Let_def inRange_def filter_map comp_def)
  qed
qed

lemma skip_unavailable:
  assumes "\<And>c. \<not> available c \<Longrightarrow> f c = []"
  shows "concat (map f cs) = concat (map f (filter available cs))"
  using assms by (induction cs) auto


lemma strictCalls_Suc: "strictCalls both i (Suc n) = (if both then Search Calendar i else ReadAll Calendar i) # strictCalls both (Suc i) n"
  by (simp add: strictCalls_def upt_conv_Cons)

lemma strictCalls_0: "strictCalls both i 0 = []"
  by (simp add: strictCalls_def)

lemma searchCalendars_snd:
  "snd (searchCalendars t s e i cs acc w) =
     w\<lparr>log := log w @ strictCalls (s \<noteq> None \<and> e \<noteq> None) i (length cs)\<rparr>"
proof (induction cs arbitrary: i acc w)
  case Nil
  then show ?case by (simp add: strictCalls_0)
next
  case (Cons c cs)
  show ?case
    by (cases "cal_events c") (simp_all add: Cons Let_def strictCalls_Suc call_def)
qed

lemma readCalendars_snd:
  "snd (readCalendars i cs acc w) = w\<lparr>log := log w @ strictCalls False i (length cs)\<rparr>"
proof (induction cs arbitrary: i acc w)
  case Nil
  then show ?case by (simp add: strictCalls_0)
next
  case (Cons c cs)
  show ?case
    by (cases "cal_events c") (simp_all add: Cons Let_def strictCalls_Suc call_def)
qed

lemma getAllEvents_granted:
  assumes "calendarAccess w"
  shows "getAllEvents h w =
     (Inr (map (toEvent h) (concat (map sourceEvents (calendars w)))),
      w\<lparr>log := log w @ [Probe Calendar, ListStores Calendar] @ strictCalls False 0 (length (calendars w))\<rparr>)"
proof -
  let ?w1 = "call (ListStores Calendar) (call (Probe Calendar) w)"
  have r: "readCalendars 0 (calendars ?w1) [] ?w1 =
      (concat (map sourceEvents (calendars w)),
       ?w1\<lparr>log := log ?w1 @ strictCalls False 0 (length (calendars w))\<rparr>)"
    using readCalendars_fst [of 0 "calendars ?w1" "[]" ?w1] readCalendars_snd [of 0 "calendars ?w1" "[]" ?w1]
    by (simp add: prod_eq_iff call_def)
  show ?thesis
    using assms r
    by (simp add: getAllEvents_def rethrow_def andThen_def checkCalendarAccess_def ret_def call_def)
qed


lemma rethrow_andThen_Inr:
  "m w = (Inr x, w') \<Longrightarrow> rethrow p (andThen m f) w = rethrow p (f x) w'"
  by (simp add: rethrow_def andThen_def)

lemma rethrow_andThen_Inl:
  "m w = (Inl e, w') \<Longrightarrow> rethrow p (andThen m f) w = (Inl (JsError (p @ errText e)), w')"
  by (simp add: rethrow_def andThen_def)

lemma rethrow_lift:
  "rethrow p (lift r) w = (map_sum (\<lambda>e. JsError (p @ errText e)) (\<lambda>x. x) r, w)"
  by (cases r) (simp_all add: rethrow_def lift_def)

lemma checkCalendarAccess_granted:
  "calendarAccess w \<Longrightarrow> checkCalendarAccess w = (Inr True, call (Probe Calendar) w)"
  by (simp add: checkCalendarAccess_def)

lemma checkCalendarAccess_denied:
  "\<not> calendarAccess w \<Longrightarrow> checkCalendarAccess w = (Inl (JsError calendarDenied), call (Probe Calendar) w)"
  by (simp add: checkCalendarAccess_def)

lemma getAllEvents_log:
  assumes "calendarAccess w"
  shows "getAllEvents h w =
     (Inr (map (toEvent h) (concat (map sourceEvents (calendars w)))),
      w\<lparr>log := log w @ strictLog False (length (calendars w))\<rparr>)"
  using getAllEvents_granted [OF assms] by (simp add: strictLog_def)

lemma findEvents_granted:
  assumes "calendarAccess w" and "optISO h sd = Inr s" and "optISO h ed = Inr e"
  shows "findEvents h t sd ed w =
     (let n = length (calendars w);
          both = (s \<noteq> None \<and> e \<noteq> None);
          events = map (toEvent h) (concat (map (sourceMatches t s e) (calendars w)))
      in if events = [] \<and> sd = None \<and> ed = None
         then (map_sum (\<lambda>e. JsError (''Error finding calendar events: '' @ errText e)) (\<lambda>x. x)
                 (broadFilter h t (map (toEvent h) (concat (map sourceEvents (calendars w))))),
               w\<lparr>log := log w @ strictLog both n @ strictLog False n\<rparr>)
         else (Inr events, w\<lparr>log := log w @ strictLog both n\<rparr>))"
proof -
  let ?p = "''Error finding calendar events: ''"
  let ?w0 = "call (Probe Calendar) w"
  let ?w1 = "call (ListStores Calendar) ?w0"
  let ?both = "s \<noteq> None \<and> e \<noteq> None"
  let ?n = "length (calendars w)"
  let ?w2 = "w\<lparr>log := log w @ strictLog ?both ?n\<rparr>"
  let ?ms = "concat (map (sourceMatches t s e) (calendars w))"
  have r: "searchCalendars t s e 0 (calendars ?w0) [] ?w1 = (?ms, ?w2)"
    using searchCalendars_fst [of t s e 0 "calendars ?w0" "[]" ?w1]
          searchCalendars_snd [of t s e 0 "calendars ?w0" "[]" ?w1]
    by (simp add: prod_eq_iff call_def strictLog_def)
  have acc2: "calendarAccess ?w2" using assms(1) by simp
  have all: "getAllEvents h ?w2 =
      (Inr (map (toEvent h) (concat (map sourceEvents (calendars w)))),
       w\<lparr>log := log w @ strictLog ?both ?n @ strictLog False ?n\<rparr>)"
    using getAllEvents_log [OF acc2] by simp
  have fb: "rethrow ?p (andThen (getAllEvents h) (\<lambda>allEvents. lift (broadFilter h t allEvents))) ?w2 =
      (map_sum (\<lambda>e. JsError (?p @ errText e)) (\<lambda>x. x)
         (broadFilter h t (map (toEvent h) (concat (map sourceEvents (calendars w))))),
       w\<lparr>log := log w @ strictLog ?both ?n @ strictLog False ?n\<rparr>)"
    unfolding rethrow_andThen_Inr [where m = "getAllEvents h" and w = ?w2, OF all] rethrow_lift ..
  have step: "findEvents h t sd ed w =
      rethrow ?p (\<lambda>w'. case searchCalendars t s e 0 (calendars w') [] (call (ListStores Calendar) w') of
          (matchingEvents, w'') \<Rightarrow>
            (let events = map (toEvent h) matchingEvents in
             if length events = 0 \<and> sd = None \<and> ed = None
             then andThen (getAllEvents h) (\<lambda>allEvents. lift (broadFilter h t allEvents)) w''
             else (Inr events, w''))) ?w0"
    unfolding findEvents_def
    by (simp add: checkCalendarAccess_granted [OF assms(1)] assms(2,3) rethrow_def andThen_def lift_def)
  show ?thesis
  proof (cases "map (toEvent h) ?ms = [] \<and> sd = None \<and> ed = None")
    case True
    have "findEvents h t sd ed w =
        rethrow ?p (andThen (getAllEvents h) (\<lambda>allEvents. lift (broadFilter h t allEvents))) ?w2"
      unfolding step using True by (simp add: rethrow_def r)
    then show ?thesis using True unfolding fb by (simp add: Let_def)
  next
    case False
    have "findEvents h t sd ed w = (Inr (map (toEvent h) ?ms), ?w2)"
      unfolding step using False by (auto simp add: rethrow_def r)
    then show ?thesis using False by (auto simp add: Let_def)
  qed
qed


lemma optISO_simps:
  "optISO h None = Inr None"
  "optISO h (Some (Date t)) = Inr (Some t)"
  "optISO h (Some InvalidDate) = Inl (JsError (rangeErrorText h))"
  by (simp_all add: optISO_def toISOString_def)

lemma strictCalls_read: "strictCalls False 0 n = map (ReadAll Calendar) [0..<n]"
  and strictCalls_search: "strictCalls True 0 n = map (Search Calendar) [0..<n]"
  by (simp_all add: strictCalls_def)

lemma office_simps:
  "calendarAccess office" "remindersAccess office"
  "calendars office = [\<lparr>cal_name = ''Work'', cal_events = Available [standup, review]\<rparr>,
                   \<lparr>cal_name = ''Shared'', cal_events = Unavailable (Thrown ''Not authorized'')\<rparr>,
                   \<lparr>cal_name = ''Home'', cal_events = Available [dentist]\<rparr>]"
  "log office = []"
  by (simp_all add: office_def)

lemma textFilter_examples:
  "textFilter ''Room'' standup" "textFilter ''Room'' review" "\<not> textFilter ''Room'' dentist"
  "textFilter ''Standup'' standup" "\<not> textFilter ''Standup'' review" "\<not> textFilter ''Standup'' dentist"
  by (simp_all add: textFilter_def standup_def review_def dentist_def orEmpty_def)


lemma sourceEvents_down: "\<not> available c \<Longrightarrow> sourceEvents c = []"
  by (simp add: available_def sourceEvents_def split: store.splits)

lemma sourceMatches_down: "\<not> available c \<Longrightarrow> sourceMatches t s e c = []"
  by (simp add: sourceMatches_def sourceEvents_down)

lemma allDown_simps:
  "calendarAccess allDown"
  "calendars allDown = [\<lparr>cal_name = ''Work'', cal_events = Unavailable (Thrown ''Not authorized'')\<rparr>,
                           \<lparr>cal_name = ''Home'', cal_events = Unavailable (Thrown ''Not authorized'')\<rparr>]"
  by (simp_all add: allDown_def office_def)


subsection \<open>The reminders module\<close>


lemma callRange_Suc: "callRange c i (Suc n) = c i # callRange c (Suc i) n"
proof -
  have "[i..<i + Suc n] = i # [Suc i..<Suc i + n]" by (simp add: upt_conv_Cons)
  then show ?thesis unfolding callRange_def by simp
qed

lemma callRange_0: "callRange c i 0 = []"
  by (simp add: callRange_def)

lemma readLists_eq:
  "readLists i ls acc w =
     (case firstDown ls of
        None \<Rightarrow> (Inr (acc @ concat (map items ls)),
                 w\<lparr>log := log w @ callRange (ReadAll Reminders) i (length ls)\<rparr>)
      | Some (k, e) \<Rightarrow> (Inl e, w\<lparr>log := log w @ callRange (ReadAll Reminders) i (Suc k)\<rparr>))"
proof (induction i ls acc w rule: readLists.induct)
  case (1 i allReminders w)
  then show ?case by (simp add: callRange_0)
next
  case (2 i e ls allReminders w)
  then show ?case by (simp add: call_def callRange_Suc callRange_0)
next
  case (3 i rs ls allReminders w)
  then show ?case
    by (cases "firstDown ls") (auto simp: call_def items_def callRange_Suc)
qed

lemma searchLists_eq:
  "searchLists h t i ls acc w =
     (case firstDown ls of
        None \<Rightarrow> (Inr (acc @ concat (map (\<lambda>l. filter (whoseContains h t) (items l)) ls)),
                 w\<lparr>log := log w @ callRange (Search Reminders) i (length ls)\<rparr>)
      | Some (k, e) \<Rightarrow> (Inl e, w\<lparr>log := log w @ callRange (Search Reminders) i (Suc k)\<rparr>))"
proof (induction h t i ls acc w rule: searchLists.induct)
  case (1 h searchText i matchingReminders w)
  then show ?case by (simp add: callRange_0)
next
  case (2 h searchText i e ls matchingReminders w)
  then show ?case by (simp add: call_def callRange_Suc callRange_0)
next
  case (3 h searchText i rs ls matchingReminders w)
  then show ?case
    by (cases "firstDown ls") (auto simp: call_def items_def callRange_Suc)
qed

lemma checkRemindersAccess_granted:
  "remindersAccess w \<Longrightarrow> checkRemindersAccess w = (Inr True, call (Probe Reminders) w)"
  by (simp add: checkRemindersAccess_def)

lemma checkRemindersAccess_denied:
  "\<not> remindersAccess w \<Longrightarrow>
   checkRemindersAccess w = (Inl (JsError remindersDenied), call (Probe Reminders) w)"
  by (simp add: checkRemindersAccess_def)


lemma getAllReminders_down:
  assumes "remindersAccess w" and "firstDown (lists w) = Some (k, e)"
  shows "getAllReminders h w =
     (Inl (JsError (''Error accessing reminders: '' @ errText e)),
      w\<lparr>log := log w @ [Probe Reminders, ListStores Reminders] @
               callRange (ReadAll Reminders) 0 (Suc k)\<rparr>)"
  using assms
  by (simp add: getAllReminders_def rethrow_def andThen_def checkRemindersAccess_granted
        readLists_eq ret_def call_def)

lemma findReminders_down:
  assumes "remindersAccess w" and "firstDown (lists w) = Some (k, e)"
  shows "findReminders h t w =
     (Inl (JsError (''Error finding reminders: '' @ errText e)),
      w\<lparr>log := log w @ [Probe Reminders, ListStores Reminders] @
               callRange (Search Reminders) 0 (Suc k)\<rparr>)"
  using assms
  by (simp add: findReminders_def rethrow_def andThen_def checkRemindersAccess_granted
        searchLists_eq ret_def call_def)



subsection \<open>Counting calls\<close>

lemma count_strictCalls: "count_list (strictCalls b i n) (Probe d) = 0"
  by (induction n arbitrary: i) (simp_all add: strictCalls_0 strictCalls_Suc)

lemma count_callRange_Search: "count_list (callRange (Search d') i n) (Probe d) = 0"
  by (induction n arbitrary: i) (simp_all add: callRange_0 callRange_Suc)

lemma count_callRange_ReadAll: "count_list (callRange (ReadAll d') i n) (Probe d) = 0"
  by (induction n arbitrary: i) (simp_all add: callRange_0 callRange_Suc)

lemma delegated_append: "delegated (xs @ ys) = delegated xs + delegated ys"
  by (simp add: delegated_def)

lemma delegated_simps:
  "delegated [] = 0"
  "delegated (Probe d # cs) = delegated cs"
  "delegated (ListStores d # cs) = delegated cs"
  "delegated (ReadAll d i # cs) = delegated cs"
  "delegated (Search d i # cs) = Suc (delegated cs)"
  by (simp_all add: delegated_def)

lemma delegated_strictCalls_False: "delegated (strictCalls False i n) = 0"
  by (induction n arbitrary: i) (simp_all add: strictCalls_0 strictCalls_Suc delegated_simps)

lemma delegated_callRange_ReadAll: "delegated (callRange (ReadAll d) i n) = 0"
  by (induction n arbitrary: i) (simp_all add: callRange_0 callRange_Suc delegated_simps)

lemma fallbackRuns_calendar:
  "fallbackRuns Calendar (strictLog b n) = 0"
  "fallbackRuns Calendar (strictLog b n @ strictLog b' n') = 1"
  by (simp_all add: fallbackRuns_def strictLog_def count_strictCalls)

lemma delegated_enumeration: "delegated (strictLog False n) = 0"
  by (simp add: strictLog_def delegated_strictCalls_False delegated_simps)


subsection \<open>The example states, evaluated\<close>

lemma utcHost_lower: "toLowerCase utcHost = asciiLower"
  by (simp add: utcHost_def)

lemma lower_examples:
  "asciiLower ''STANDUP'' = ''standup''"
  "asciiLower ''Standup'' = ''standup''"
  "asciiLower ''Daily sync'' = ''daily sync''"
  "asciiLower ''Room 4'' = ''room 4''"
  "asciiLower ''Design review'' = ''design review''"
  "asciiLower ''standup follow-up'' = ''standup follow-up''"
  "asciiLower ''Dentist'' = ''dentist''"
  "asciiLower ''DENTIST'' = ''dentist''"
  "asciiLower [] = []"
  by code_simp+

lemma eventMatches_examples:
  "eventMatches utcHost ''STANDUP'' (toEvent utcHost (''Work'', standup))"
  "eventMatches utcHost ''STANDUP'' (toEvent utcHost (''Work'', review))"
  "\<not> eventMatches utcHost ''STANDUP'' (toEvent utcHost (''Home'', dentist))"
  by (simp_all add: eventMatches_def toEvent_def standup_def review_def dentist_def orEmpty_def
        utcHost_lower lower_examples)



lemma textFilter_upper:
  "\<not> textFilter ''STANDUP'' standup" "\<not> textFilter ''STANDUP'' review" "\<not> textFilter ''STANDUP'' dentist"
  by (simp_all add: textFilter_def standup_def review_def dentist_def orEmpty_def)

lemma titles_present:
  "ev_title (toEvent utcHost (''Work'', standup)) \<noteq> None"
  "ev_title (toEvent utcHost (''Work'', review)) \<noteq> None"
  "ev_title (toEvent utcHost (''Home'', dentist)) \<noteq> None"
  by (simp_all add: toEvent_def standup_def review_def dentist_def)




lemma strictLog_3:
  "strictLog False (Suc (Suc (Suc 0))) =
      [Probe Calendar, ListStores Calendar, ReadAll Calendar 0, ReadAll Calendar 1, ReadAll Calendar 2]"
  "strictLog True (Suc (Suc (Suc 0))) =
      [Probe Calendar, ListStores Calendar, Search Calendar 0, Search Calendar 1, Search Calendar 2]"
  by (simp_all add: strictLog_def strictCalls_Suc strictCalls_0 numeral_2_eq_2)

lemma callRange_2:
  "callRange c 0 (Suc (Suc 0)) = [c 0, c 1]"
  by (simp add: callRange_Suc callRange_0)


subsection \<open>What a find leaves unchanged\<close>






subsection \<open>Access denied\<close>

lemma includes_str_prefix: "prefix n h \<Longrightarrow> includes_str h n"
  by (cases h) auto

lemma includes_str_Cons: "includes_str h n \<Longrightarrow> includes_str (c # h) n"
  by simp

lemma includes_str_appendI: "includes_str h n \<Longrightarrow> includes_str (p @ h) n"
  by (induction p) (simp_all add: includes_str_Cons)

lemma includes_str_mid: "includes_str (p @ n @ q) n"
  by (rule includes_str_appendI) (simp add: includes_str_prefix)

lemma remindersDenied_path:
  "remindersDenied = ''Cannot access Reminders app. Please grant access in '' @ remindersPath @ ''.''"
  by (simp add: remindersDenied_def remindersPath_def)

lemma calendarDenied_path:
  "calendarDenied = ''Cannot access Calendar app. Please grant access in '' @ calendarPath @ ''.''"
  by (simp add: calendarDenied_def calendarPath_def)

lemma remindersDenied_names: "includes_str (p @ remindersDenied) remindersPath"
  unfolding remindersDenied_path by (rule includes_str_appendI) (rule includes_str_mid)

lemma calendarDenied_names: "includes_str (p @ calendarDenied) calendarPath"
  unfolding calendarDenied_path by (rule includes_str_appendI) (rule includes_str_mid)

lemma denied_reminders:
  assumes "\<not> remindersAccess w"
  shows "rethrow p (andThen checkRemindersAccess f) w =
           (Inl (JsError (p @ remindersDenied)), call (Probe Reminders) w)"
  using assms by (simp add: rethrow_def andThen_def checkRemindersAccess_def)

lemma denied_calendar:
  assumes "\<not> calendarAccess w"
  shows "rethrow p (andThen checkCalendarAccess f) w =
           (Inl (JsError (p @ calendarDenied)), call (Probe Calendar) w)"
  using assms by (simp add: rethrow_def andThen_def checkCalendarAccess_def)

lemma deniedOutcome_reminders:
  "r = (Inl (JsError (p @ remindersDenied)), call (Probe Reminders) w) \<Longrightarrow>
   deniedOutcome Reminders w r"
  unfolding deniedOutcome_def using remindersDenied_names [of p] by simp

lemma deniedOutcome_calendar:
  "r = (Inl (JsError (p @ calendarDenied)), call (Probe Calendar) w) \<Longrightarrow>
   deniedOutcome Calendar w r"
  unfolding deniedOutcome_def using calendarDenied_names [of p] by simp


subsection \<open>Completing a reminder\<close>

lemma firstWithId_None: "firstWithId ident rs = None \<longleftrightarrow> list_all (\<lambda>r. ro_id r \<noteq> ident) rs"
  by (induction rs) auto


lemma locate_None: "noSuchId ident ls \<Longrightarrow> locate ident ls = None"
  by (induction ls) (auto simp: noSuchId_def firstWithId_None [symmetric])































subsection \<open>The handler\<close>

lemma handler_settles:
  "handler h c name args w =
     (case handlerBody h c name args w of
        (Inl e, w') \<Rightarrow> (Inr \<lparr>content = ''Error: '' @ errText e, isError = True\<rparr>, w')
      | (Inr res, w') \<Rightarrow> (Inr res, w'))"
  by (simp add: handler_def tryCatch_def ret_def split: prod.splits sum.splits)

lemma handler_fulfilled: "\<exists>res. fst (handler h c name args w) = Inr res"
  unfolding handler_settles by (auto split: prod.splits sum.splits)

lemma handler_caught:
  "fst (handlerBody h c name args w) = Inl e \<Longrightarrow>
   fst (handler h c name args w) = Inr \<lparr>content = ''Error: '' @ errText e, isError = True\<rparr>"
  unfolding handler_settles by (auto split: prod.splits sum.splits)

lemma failed_caught: "fst (handlerBody h c name args w) = Inl e \<Longrightarrow> failed (handler h c name args w)"
  unfolding failed_def by (simp add: handler_caught)

lemma unknown_tool:
  "name \<notin> set knownTools \<Longrightarrow> failed (handler h c name args w)"
  unfolding failed_def handler_settles handlerBody_def knownTools_def
  by (simp add: raise_def ret_def)

lemma handlerBody_no_args:
  "\<not> truthy args \<Longrightarrow> handlerBody h c name args w = (Inl (JsError ''No arguments provided''), w)"
  by (simp add: handlerBody_def raise_def)

lemma handlerBody_tool:
  assumes "truthy args"
  shows "handlerBody h c ''contacts'' args w = contactsTool c args w"
    and "handlerBody h c ''notes'' args w = notesTool c args w"
    and "handlerBody h c ''messages'' args w = messagesTool h c args w"
    and "handlerBody h c ''reminders'' args w = remindersTool h args w"
    and "handlerBody h c ''calendar'' args w = calendarTool h args w"
  using assms by (simp_all add: handlerBody_def)

lemma tool_invalid:
  "\<not> isContactsArgs args \<Longrightarrow>
     contactsTool c args w = (Inl (JsError ''Invalid arguments for contacts tool''), w)"
  "\<not> isNotesArgs args \<Longrightarrow>
     notesTool c args w = (Inl (JsError ''Invalid arguments for notes tool''), w)"
  "\<not> isMessagesArgs args \<Longrightarrow>
     messagesTool h c args w = (Inl (JsError ''Invalid arguments for messages tool''), w)"
  "\<not> isRemindersArgs args \<Longrightarrow>
     remindersTool h args w = (Inl (JsError ''Invalid arguments for reminders tool''), w)"
  "\<not> isCalendarArgs args \<Longrightarrow>
     calendarTool h args w = (Inl (JsError ''Invalid arguments for calendar tool''), w)"
  by (simp_all add: contactsTool_def notesTool_def messagesTool_def remindersTool_def
        calendarTool_def raise_def)

lemma invalid_args_body:
  assumes "(name = ''contacts'' \<and> \<not> isContactsArgs args) \<or> (name = ''notes'' \<and> \<not> isNotesArgs args) \<or>
           (name = ''messages'' \<and> \<not> isMessagesArgs args) \<or>
           (name = ''reminders'' \<and> \<not> isRemindersArgs args) \<or>
           (name = ''calendar'' \<and> \<not> isCalendarArgs args)"
  shows "\<exists>e. fst (handlerBody h c name args w) = Inl e"
proof (cases "truthy args")
  case False
  then show ?thesis by (simp add: handlerBody_no_args)
next
  case True
  from assms show ?thesis
    by (elim disjE conjE) (simp_all add: handlerBody_tool [OF True] tool_invalid)
qed

lemma bad_operation_invalid:
  assumes "\<not> oneOf (operationsOf name) (get args ''operation'')"
  shows "name = ''messages'' \<Longrightarrow> \<not> isMessagesArgs args"
    and "name = ''reminders'' \<Longrightarrow> \<not> isRemindersArgs args"
    and "name = ''calendar'' \<Longrightarrow> \<not> isCalendarArgs args"
proof -
  assume "name = ''messages''"
  then have "operationsOf name = [''send'', ''read'', ''schedule'', ''unread'']"
    by (simp add: operationsOf_def)
  with assms have n: "oneOf [''send'', ''read'', ''schedule'', ''unread''] (get args ''operation'') = False"
    by simp
  show "\<not> isMessagesArgs args"
    unfolding isMessagesArgs_def Let_def
    by (simp only: n simp_thms if_True if_cancel)
next
  assume "name = ''reminders''"
  then have "operationsOf name = [''list'', ''find'', ''create'', ''complete'']"
    by (simp add: operationsOf_def)
  with assms have n: "oneOf [''list'', ''find'', ''create'', ''complete''] (get args ''operation'') = False"
    by simp
  show "\<not> isRemindersArgs args"
    unfolding isRemindersArgs_def Let_def
    by (simp only: n simp_thms if_True if_cancel)
next
  assume "name = ''calendar''"
  then have "operationsOf name = [''list'', ''find'', ''create'']"
    by (simp add: operationsOf_def)
  with assms have n: "oneOf [''list'', ''find'', ''create''] (get args ''operation'') = False"
    by simp
  show "\<not> isCalendarArgs args"
    unfolding isCalendarArgs_def Let_def
    by (simp only: n simp_thms if_True if_cancel)
qed

lemma bad_operation_body:
  assumes "name = ''messages'' \<or> name = ''reminders'' \<or> name = ''calendar''"
    and "\<not> oneOf (operationsOf name) (get args ''operation'')"
  shows "\<exists>e. fst (handlerBody h c name args w) = Inl e"
  using assms(1)
proof (elim disjE)
  assume n: "name = ''messages''"
  show ?thesis
    by (rule invalid_args_body) (simp add: n bad_operation_invalid(1) [OF assms(2) n])
next
  assume n: "name = ''reminders''"
  show ?thesis
    by (rule invalid_args_body) (simp add: n bad_operation_invalid(2) [OF assms(2) n])
next
  assume n: "name = ''calendar''"
  show ?thesis
    by (rule invalid_args_body) (simp add: n bad_operation_invalid(3) [OF assms(2) n])
qed


lemma reminders_ops_denied:
  assumes "\<not> remindersAccess w"
  shows "getAllReminders h w =
           (Inl (JsError (''Error accessing reminders: '' @ remindersDenied)), call (Probe Reminders) w)"
    and "findReminders h t w =
           (Inl (JsError (''Error finding reminders: '' @ remindersDenied)), call (Probe Reminders) w)"
    and "createReminder h title notes due w =
           (Inl (JsError (''Error creating reminder: '' @ remindersDenied)), call (Probe Reminders) w)"
    and "completeReminder ident w =
           (Inl (JsError (''Error completing reminder: '' @ remindersDenied)), call (Probe Reminders) w)"
  unfolding getAllReminders_def findReminders_def createReminder_def completeReminder_def
  by (rule denied_reminders [OF assms])+

lemma calendar_ops_denied:
  assumes "\<not> calendarAccess w"
  shows "getAllEvents h w =
           (Inl (JsError (''Error accessing calendar events: '' @ calendarDenied)), call (Probe Calendar) w)"
    and "findEvents h t sd ed w =
           (Inl (JsError (''Error finding calendar events: '' @ calendarDenied)), call (Probe Calendar) w)"
    and "createEvent h title start duration description location w =
           (Inl (JsError (''Error creating calendar event: '' @ calendarDenied)), call (Probe Calendar) w)"
  unfolding getAllEvents_def findEvents_def createEvent_def
  by (rule denied_calendar [OF assms])+

lemma reminders_then_denied:
  assumes "\<not> remindersAccess w"
  shows "\<exists>e. fst (andThen (getAllReminders h) f1 w) = Inl e"
    and "\<exists>e. fst (andThen (findReminders h t) f2 w) = Inl e"
    and "\<exists>e. fst (andThen (createReminder h title notes due) f3 w) = Inl e"
    and "\<exists>e. fst (andThen (completeReminder ident) f4 w) = Inl e"
  by (simp_all add: andThen_def reminders_ops_denied [OF assms])

lemma calendar_then_denied:
  assumes "\<not> calendarAccess w"
  shows "\<exists>e. fst (andThen (getAllEvents h) f1 w) = Inl e"
    and "\<exists>e. fst (andThen (findEvents h t sd ed) f2 w) = Inl e"
    and "\<exists>e. fst (andThen (createEvent h title start duration description location) f3 w) = Inl e"
  by (simp_all add: andThen_def calendar_ops_denied [OF assms])

lemma remindersTool_denied:
  assumes "\<not> remindersAccess w"
  shows "\<exists>e. fst (remindersTool h args w) = Inl e"
  unfolding remindersTool_def Let_def
  by (simp add: raise_def reminders_then_denied [OF assms])

lemma calendarTool_denied:
  assumes "\<not> calendarAccess w"
  shows "\<exists>e. fst (calendarTool h args w) = Inl e"
  unfolding calendarTool_def Let_def
  by (simp add: raise_def calendar_then_denied [OF assms])


lemma failed_body:
  "\<exists>e. fst (handlerBody h c name args w) = Inl e \<Longrightarrow> failed (handler h c name args w)"
  by (auto intro: failed_caught)

lemma tool_denied_failed:
  shows "\<not> remindersAccess w \<Longrightarrow> failed (handler h c ''reminders'' args w)"
    and "\<not> calendarAccess w \<Longrightarrow> failed (handler h c ''calendar'' args w)"
proof -
  assume d: "\<not> remindersAccess w"
  show "failed (handler h c ''reminders'' args w)"
  proof (cases "truthy args")
    case True
    show ?thesis
      by (rule failed_body) (simp add: handlerBody_tool [OF True] remindersTool_denied [OF d])
  next
    case False
    then show ?thesis by (intro failed_body) (simp add: handlerBody_no_args)
  qed
next
  assume d: "\<not> calendarAccess w"
  show "failed (handler h c ''calendar'' args w)"
  proof (cases "truthy args")
    case True
    show ?thesis
      by (rule failed_body) (simp add: handlerBody_tool [OF True] calendarTool_denied [OF d])
  next
    case False
    then show ?thesis by (intro failed_body) (simp add: handlerBody_no_args)
  qed
qed

lemma contacts_error:
  assumes "truthy args" and "isContactsArgs args"
    and "if truthy (get args ''name'') then findNumber c (strOf (get args ''name'')) = Inl e
         else getAllNumbers c = Inl e"
  shows "handler h c ''contacts'' args w =
           (Inr \<lparr>content = ''Error accessing contacts: '' @ errText e, isError = True\<rparr>, w)"
proof (cases "truthy (get args ''name'')")
  case True
  with assms(3) have f: "findNumber c (strOf (get args ''name'')) = Inl e" by simp
  show ?thesis
    unfolding handler_settles handlerBody_tool [OF assms(1)] contactsTool_def
    by (simp add: assms(2) True f tryCatch_def andThen_def lift_def ret_def Let_def)
next
  case False
  with assms(3) have f: "getAllNumbers c = Inl e" by simp
  show ?thesis
    unfolding handler_settles handlerBody_tool [OF assms(1)] contactsTool_def
    by (simp add: assms(2) False f tryCatch_def andThen_def lift_def ret_def Let_def)
qed

lemma listArgs_valid: "truthy listArgs" "isRemindersArgs listArgs" "isCalendarArgs listArgs"
  "get listArgs ''operation'' = Some (JStr ''list'')"
  by (simp_all add: listArgs_def isRemindersArgs_def isCalendarArgs_def oneOf_def isStr_def Let_def)

lemma list_source_error:
  assumes "remindersAccess w" and "firstDown (lists w) = Some (k, e)"
  shows "fst (handler h c ''reminders'' listArgs w) =
           Inr \<lparr>content = ''Error: Error accessing reminders: '' @ errText e, isError = True\<rparr>"
proof -
  have "fst (handlerBody h c ''reminders'' listArgs w) =
          Inl (JsError (''Error accessing reminders: '' @ errText e))"
    unfolding handlerBody_tool [OF listArgs_valid(1)] remindersTool_def
    by (simp add: listArgs_valid isStr_def andThen_def getAllReminders_down [OF assms] Let_def)
  then show ?thesis by (simp add: handler_caught)
qed


subsection \<open>Valid dates and titled events\<close>

lemma optISO_instant: "d \<noteq> Some InvalidDate \<Longrightarrow> optISO h d = Inr (instant d)"
  by (cases d; cases "the d") (simp_all add: optISO_simps instant_def)

lemma broadFilter_titled:
  "list_all (\<lambda>ev. ev_title ev \<noteq> None) evs \<Longrightarrow>
   broadFilter h t evs = Inr (filter (eventMatches h t) evs)"
  by (simp add: broadFilter_def list_ex_iff list_all_iff)


subsection \<open>A find by text alone\<close>




section \<open>Calendar find with one date bound\<close>

text \<open>
  C10. A calendar find with exactly one of the two date bounds: the bound plays no part.
\<close>

theorem findEvents_single_bound:
  assumes "calendarAccess w"
  shows "findEvents h t (Some (Date d)) None w =
           (Inr (map (toEvent h)
                   (concat (map (\<lambda>c. filter (\<lambda>ce. textFilter t (snd ce)) (sourceEvents c))
                              (calendars w)))),
            w\<lparr>log := log w @ [Probe Calendar, ListStores Calendar] @
                     map (ReadAll Calendar) [0..<length (calendars w)]\<rparr>)
       \<and> findEvents h t None (Some (Date d)) w = findEvents h t (Some (Date d)) None w"
proof -
  have m: "sourceMatches t (Some d) None = (\<lambda>c. filter (\<lambda>ce. textFilter t (snd ce)) (sourceEvents c))"
          "sourceMatches t None (Some d) = (\<lambda>c. filter (\<lambda>ce. textFilter t (snd ce)) (sourceEvents c))"
    by (simp_all add: sourceMatches_def inRange_def fun_eq_iff)
  have a: "findEvents h t (Some (Date d)) None w =
           (Inr (map (toEvent h)
                   (concat (map (\<lambda>c. filter (\<lambda>ce. textFilter t (snd ce)) (sourceEvents c))
                              (calendars w)))),
            w\<lparr>log := log w @ [Probe Calendar, ListStores Calendar] @
                     map (ReadAll Calendar) [0..<length (calendars w)]\<rparr>)"
    using findEvents_granted [where w = w and h = h and t = t and sd = "Some (Date d)" and s = "Some d" and ed = None and e = None, OF assms]
    by (simp add: optISO_simps m strictLog_def strictCalls_read Let_def)
  have b: "findEvents h t None (Some (Date d)) w =
           (Inr (map (toEvent h)
                   (concat (map (\<lambda>c. filter (\<lambda>ce. textFilter t (snd ce)) (sourceEvents c))
                              (calendars w)))),
            w\<lparr>log := log w @ [Probe Calendar, ListStores Calendar] @
                     map (ReadAll Calendar) [0..<length (calendars w)]\<rparr>)"
    using findEvents_granted [where w = w and h = h and t = t and ed = "Some (Date d)" and e = "Some d" and sd = None and s = None, OF assms]
    by (simp add: optISO_simps m strictLog_def strictCalls_read Let_def)
  show ?thesis using a b by simp
qed

theorem findEvents_single_bound_witness:
  "calendarAccess office \<and>
   fst (findEvents utcHost ''Room'' (Some (Date 1704186000000)) None office) =
     Inr (map (toEvent utcHost) [(''Work'', standup), (''Work'', review)]) \<and>
   log (snd (findEvents utcHost ''Room'' (Some (Date 1704186000000)) None office)) =
     [Probe Calendar, ListStores Calendar, ReadAll Calendar 0, ReadAll Calendar 1, ReadAll Calendar 2]"
  using findEvents_single_bound [of office utcHost "''Room''" 1704186000000]
  by (simp add: office_simps sourceEvents_def textFilter_examples upt_rec)


section \<open>Calendar find with a date range\<close>

text \<open>
  C6 (counterexample). The stand-up of the example runs from 09:00 to 10:00; a search
  from 09:30 to 11:00 meets it and its title matches, yet the find returns nothing.
\<close>

theorem findEvents_overlap_counterexample:
  "intersectsRange 1704101400000 1704106800000 standup \<and>
   textFilter ''Standup'' standup \<and>
   fst (findEvents utcHost ''Standup'' (Some (Date 1704101400000)) (Some (Date 1704106800000)) office)
     = Inr []"
proof -
  have "\<not> whoseBetween 1704101400000 1704106800000 standup"
       "\<not> whoseBetween 1704101400000 1704106800000 review"
       "\<not> whoseBetween 1704101400000 1704106800000 dentist"
    by (simp_all add: whoseBetween_def standup_def review_def dentist_def)
  then have "fst (findEvents utcHost ''Standup'' (Some (Date 1704101400000))
                    (Some (Date 1704106800000)) office) = Inr []"
    using findEvents_granted [where w = office and h = utcHost and t = "''Standup''"
        and sd = "Some (Date 1704101400000)" and s = "Some 1704101400000"
        and ed = "Some (Date 1704106800000)" and e = "Some 1704106800000"]
    by (simp add: optISO_simps office_simps sourceMatches_def sourceEvents_def inRange_def Let_def)
  moreover have "intersectsRange 1704101400000 1704106800000 standup"
    by (simp add: intersectsRange_def standup_def)
  ultimately show ?thesis by (simp add: textFilter_examples)
qed

text \<open>
  C6 (amended). With both bounds, each calendar is asked for the events that lie
  within the range, ends included (start at or after the lower bound, end at or before
  the upper one); the text filter is then applied to what the calendars returned.
\<close>

theorem findEvents_date_then_text:
  assumes "calendarAccess w"
  shows "findEvents h t (Some (Date s)) (Some (Date e)) w =
           (Inr (map (toEvent h)
                   (concat (map (\<lambda>c. filter (\<lambda>ce. textFilter t (snd ce))
                                        (filter (\<lambda>ce. s \<le> eo_startDate (snd ce) \<and> eo_endDate (snd ce) \<le> e)
                                           (sourceEvents c)))
                              (calendars w)))),
            w\<lparr>log := log w @ [Probe Calendar, ListStores Calendar] @
                     map (Search Calendar) [0..<length (calendars w)]\<rparr>)"
proof -
  have m: "sourceMatches t (Some s) (Some e) =
      (\<lambda>c. filter (\<lambda>ce. textFilter t (snd ce))
              (filter (\<lambda>ce. s \<le> eo_startDate (snd ce) \<and> eo_endDate (snd ce) \<le> e) (sourceEvents c)))"
    by (simp add: sourceMatches_def inRange_def whoseBetween_def fun_eq_iff)
  show ?thesis
    using findEvents_granted [where w = w and h = h and t = t and sd = "Some (Date s)"
        and s = "Some s" and ed = "Some (Date e)" and e = "Some e", OF assms]
    by (simp add: optISO_simps m strictLog_def strictCalls_search Let_def)
qed

theorem findEvents_date_then_text_witness:
  "calendarAccess office \<and>
   fst (findEvents utcHost ''Room'' (Some (Date 1704099600000)) (Some (Date 1704103200000)) office) =
     Inr [toEvent utcHost (''Work'', standup)] \<and>
   log (snd (findEvents utcHost ''Room'' (Some (Date 1704099600000)) (Some (Date 1704103200000)) office)) =
     [Probe Calendar, ListStores Calendar, Search Calendar 0, Search Calendar 1, Search Calendar 2]"
proof -
  have r: "eo_startDate standup = 1704099600000" "eo_endDate standup = 1704103200000"
          "eo_startDate review = 1704207600000" "eo_endDate review = 1704211200000"
          "eo_startDate dentist = 1704186000000" "eo_endDate dentist = 1704189600000"
    by (simp_all add: standup_def review_def dentist_def)
  show ?thesis
    using findEvents_date_then_text [of office utcHost "''Room''" 1704099600000 1704103200000]
    by (simp add: office_simps sourceEvents_def textFilter_examples r upt_rec)
qed


section \<open>Calendars that raise\<close>

text \<open>
  C3 (counterexample). Both calendars of \<open>allDown\<close> raise on every read, and both the
  listing and the find succeed with no events instead of failing.
\<close>

theorem all_sources_raising_counterexample:
  "list_all (\<lambda>c. \<not> available c) (calendars allDown) \<and>
   fst (getAllEvents utcHost allDown) = Inr [] \<and>
   fst (findEvents utcHost ''Standup'' None None allDown) = Inr []"
proof -
  have "fst (getAllEvents utcHost allDown) = Inr []"
    using getAllEvents_log [of allDown utcHost]
    by (simp add: allDown_simps sourceEvents_def)
  moreover have "fst (findEvents utcHost ''Standup'' None None allDown) = Inr []"
    using findEvents_granted [where w = allDown and h = utcHost and t = "''Standup''"
        and sd = None and s = None and ed = None and e = None]
    by (simp add: optISO_simps allDown_simps sourceMatches_def sourceEvents_def Let_def broadFilter_def)
  ultimately show ?thesis by (simp add: allDown_simps available_def)
qed

text \<open>
  C3 (amended). For the calendar listing and the calendar find, once access is granted
  and every date that is supplied is a valid date: a calendar that raises is skipped
  and adds nothing. The listing returns the events of the calendars that do not raise,
  in the order of the calendars. The find returns the strict matches of those
  calendars, in that order, whenever there is one or a date was supplied; where there
  is none and no date was supplied, and every event of those calendars has a title, it
  returns the events of those calendars whose title, description or location contains
  the text once both are put in lower case. With every calendar raising, the listing
  and the find return the empty list as a success.
\<close>

theorem calendar_sources_isolated:
  assumes "calendarAccess w" and "sd \<noteq> Some InvalidDate" and "ed \<noteq> Some InvalidDate"
  shows "fst (getAllEvents h w) =
           Inr (map (toEvent h) (concat (map sourceEvents (filter available (calendars w)))))
       \<and> (let up = filter available (calendars w);
               strict = map (toEvent h) (concat (map (sourceMatches t (instant sd) (instant ed)) up));
               allUp = map (toEvent h) (concat (map sourceEvents up))
           in (strict \<noteq> [] \<or> sd \<noteq> None \<or> ed \<noteq> None \<longrightarrow>
                 fst (findEvents h t sd ed w) = Inr strict)
            \<and> (strict = [] \<and> sd = None \<and> ed = None \<and> list_all (\<lambda>ev. ev_title ev \<noteq> None) allUp \<longrightarrow>
                 fst (findEvents h t sd ed w) =
                   Inr (filter (\<lambda>ev. includes_str (toLowerCase h (orEmpty (ev_title ev))) (toLowerCase h t) \<or>
                                      includes_str (toLowerCase h (ev_description ev)) (toLowerCase h t) \<or>
                                      includes_str (toLowerCase h (ev_location ev)) (toLowerCase h t))
                          allUp))
            \<and> (up = [] \<longrightarrow>
                 fst (getAllEvents h w) = Inr [] \<and> fst (findEvents h t sd ed w) = Inr []))"
proof -
  let ?up = "filter available (calendars w)"
  let ?strict = "map (toEvent h) (concat (map (sourceMatches t (instant sd) (instant ed)) ?up))"
  let ?allUp = "map (toEvent h) (concat (map sourceEvents ?up))"
  have o: "optISO h sd = Inr (instant sd)" "optISO h ed = Inr (instant ed)"
    by (rule optISO_instant [OF assms(2)], rule optISO_instant [OF assms(3)])
  have ev: "concat (map sourceEvents (calendars w)) = concat (map sourceEvents ?up)"
    by (rule skip_unavailable) (rule sourceEvents_down)
  have ms: "concat (map (sourceMatches t (instant sd) (instant ed)) (calendars w)) =
            concat (map (sourceMatches t (instant sd) (instant ed)) ?up)"
    by (rule skip_unavailable) (rule sourceMatches_down)
  have a: "fst (getAllEvents h w) = Inr ?allUp"
    using getAllEvents_log [OF assms(1), of h] ev by simp
  have f: "fst (findEvents h t sd ed w) =
           (if ?strict = [] \<and> sd = None \<and> ed = None
            then map_sum (\<lambda>x. JsError (''Error finding calendar events: '' @ errText x)) (\<lambda>x. x)
                   (broadFilter h t ?allUp)
            else Inr ?strict)"
    unfolding findEvents_granted [OF assms(1) o, of t] ev ms by (auto simp add: Let_def)
  have b: "?strict \<noteq> [] \<or> sd \<noteq> None \<or> ed \<noteq> None \<longrightarrow> fst (findEvents h t sd ed w) = Inr ?strict"
    unfolding f by auto
  have c: "?strict = [] \<and> sd = None \<and> ed = None \<and> list_all (\<lambda>ev. ev_title ev \<noteq> None) ?allUp \<longrightarrow>
           fst (findEvents h t sd ed w) =
             Inr (filter (\<lambda>ev. includes_str (toLowerCase h (orEmpty (ev_title ev))) (toLowerCase h t) \<or>
                                includes_str (toLowerCase h (ev_description ev)) (toLowerCase h t) \<or>
                                includes_str (toLowerCase h (ev_location ev)) (toLowerCase h t))
                    ?allUp)"
    unfolding f by (auto simp add: broadFilter_titled eventMatches_def [abs_def])
  have d: "?up = [] \<longrightarrow> fst (getAllEvents h w) = Inr [] \<and> fst (findEvents h t sd ed w) = Inr []"
    unfolding a f by (simp add: broadFilter_def)
  show ?thesis unfolding Let_def using a b c d by blast
qed


theorem calendar_sources_isolated_witness:
  "calendarAccess office \<and> (None :: jsdate option) \<noteq> Some InvalidDate \<and>
   filter available (calendars office) =
     [\<lparr>cal_name = ''Work'', cal_events = Available [standup, review]\<rparr>,
      \<lparr>cal_name = ''Home'', cal_events = Available [dentist]\<rparr>] \<and>
   fst (getAllEvents utcHost office) =
     Inr (map (toEvent utcHost) [(''Work'', standup), (''Work'', review), (''Home'', dentist)]) \<and>
   fst (findEvents utcHost ''Room'' None None office) =
     Inr (map (toEvent utcHost) [(''Work'', standup), (''Work'', review)]) \<and>
   fst (findEvents utcHost ''STANDUP'' None None office) =
     Inr (map (toEvent utcHost) [(''Work'', standup), (''Work'', review)]) \<and>
   filter available (calendars allDown) = [] \<and>
   fst (getAllEvents utcHost allDown) = Inr [] \<and>
   fst (findEvents utcHost ''Room'' None None allDown) = Inr []"
proof -
  have v: "(None :: jsdate option) \<noteq> Some InvalidDate" by simp
  have up: "filter available (calendars office) =
     [\<lparr>cal_name = ''Work'', cal_events = Available [standup, review]\<rparr>,
      \<lparr>cal_name = ''Home'', cal_events = Available [dentist]\<rparr>]"
    by (simp add: office_simps available_def)
  have down: "filter available (calendars allDown) = []"
    by (simp add: allDown_simps available_def)
  have i: "instant None = None" by (simp add: instant_def)
  note room = calendar_sources_isolated [OF office_simps(1) v v, of utcHost "''Room''"]
  note upper = calendar_sources_isolated [OF office_simps(1) v v, of utcHost "''STANDUP''"]
  note none = calendar_sources_isolated [OF allDown_simps(1) v v, of utcHost "''Room''"]
  have 1: "fst (getAllEvents utcHost office) =
     Inr (map (toEvent utcHost) [(''Work'', standup), (''Work'', review), (''Home'', dentist)])"
    using room [THEN conjunct1] by (simp add: up sourceEvents_def)
  have 2: "fst (findEvents utcHost ''Room'' None None office) =
     Inr (map (toEvent utcHost) [(''Work'', standup), (''Work'', review)])"
    using room [THEN conjunct2]
    by (simp add: up i sourceEvents_def sourceMatches_def inRange_def textFilter_examples Let_def)
  have ts: "ev_title (toEvent utcHost (''Work'', standup)) = Some ''Standup''"
           "ev_title (toEvent utcHost (''Work'', review)) = Some ''Design review''"
           "ev_title (toEvent utcHost (''Home'', dentist)) = Some ''Dentist''"
    by (simp_all add: toEvent_def standup_def review_def dentist_def)
  note imp = upper [THEN conjunct2, unfolded Let_def up, THEN conjunct2, THEN conjunct1]
  have "fst (findEvents utcHost ''STANDUP'' None None office) =
     Inr (filter (\<lambda>ev. includes_str (toLowerCase utcHost (orEmpty (ev_title ev)))
                          (toLowerCase utcHost ''STANDUP'') \<or>
                        includes_str (toLowerCase utcHost (ev_description ev))
                          (toLowerCase utcHost ''STANDUP'') \<or>
                        includes_str (toLowerCase utcHost (ev_location ev))
                          (toLowerCase utcHost ''STANDUP''))
            (map (toEvent utcHost)
               (concat (map sourceEvents
                  [\<lparr>cal_name = ''Work'', cal_events = Available [standup, review]\<rparr>,
                   \<lparr>cal_name = ''Home'', cal_events = Available [dentist]\<rparr>]))))"
    by (rule mp [OF imp])
       (simp add: i sourceMatches_def sourceEvents_def inRange_def textFilter_upper ts)
  then have 3: "fst (findEvents utcHost ''STANDUP'' None None office) =
     Inr (map (toEvent utcHost) [(''Work'', standup), (''Work'', review)])"
    using eventMatches_examples [unfolded eventMatches_def]
    by (simp add: sourceEvents_def)
  have 4: "fst (getAllEvents utcHost allDown) = Inr [] \<and>
           fst (findEvents utcHost ''Room'' None None allDown) = Inr []"
    using none [THEN conjunct2] by (simp add: down Let_def)
  show ?thesis using v up down 1 2 3 4 by (simp add: office_simps(1))
qed
section \<open>The broader search\<close>

text \<open>
  C4. A calendar find by text alone whose strict pass finds nothing makes its second
  pass once, a full read of every calendar, and then tests every event read with
  \<open>event.title.toLowerCase()\<close>: the title is read without the guard that the strict
  filter puts on it. In \<open>untitledOffice\<close> the find of \<open>DENTIST\<close> reads the stand-up that
  has no title and the dentist's appointment; the match on lower-cased text over these
  two events selects the appointment, and the find fails with the type error instead.
  The strict pass on the same state, given \<open>Dentist\<close>, returns the appointment.
\<close>

theorem untitled_event_breaks_fallback:
  "calendarAccess untitledOffice \<and>
   concat (map (sourceMatches ''DENTIST'' None None) (calendars untitledOffice)) = [] \<and>
   fst (getAllEvents utcHost untitledOffice) =
     Inr (map (toEvent utcHost) [(''Work'', standup\<lparr>eo_summary := None\<rparr>), (''Home'', dentist)]) \<and>
   filter (\<lambda>ev. includes_str (toLowerCase utcHost (orEmpty (ev_title ev))) (toLowerCase utcHost ''DENTIST'') \<or>
                 includes_str (toLowerCase utcHost (ev_description ev)) (toLowerCase utcHost ''DENTIST'') \<or>
                 includes_str (toLowerCase utcHost (ev_location ev)) (toLowerCase utcHost ''DENTIST''))
     (map (toEvent utcHost) [(''Work'', standup\<lparr>eo_summary := None\<rparr>), (''Home'', dentist)]) =
     [toEvent utcHost (''Home'', dentist)] \<and>
   fst (findEvents utcHost ''DENTIST'' None None untitledOffice) =
     Inl (JsError ''Error finding calendar events: null is not an object'') \<and>
   log (snd (findEvents utcHost ''DENTIST'' None None untitledOffice)) =
     [Probe Calendar, ListStores Calendar, ReadAll Calendar 0, ReadAll Calendar 1, ReadAll Calendar 2,
      Probe Calendar, ListStores Calendar, ReadAll Calendar 0, ReadAll Calendar 1, ReadAll Calendar 2] \<and>
   fst (findEvents utcHost ''Dentist'' None None untitledOffice) =
     Inr [toEvent utcHost (''Home'', dentist)]"
proof -
  let ?s = "standup\<lparr>eo_summary := None\<rparr>"
  have acc: "calendarAccess untitledOffice" by (simp add: untitledOffice_def office_def)
  have cs: "calendars untitledOffice =
      [\<lparr>cal_name = ''Work'', cal_events = Available [?s]\<rparr>,
       \<lparr>cal_name = ''Shared'', cal_events = Unavailable (Thrown ''Not authorized'')\<rparr>,
       \<lparr>cal_name = ''Home'', cal_events = Available [dentist]\<rparr>]"
    "log untitledOffice = []"
    by (simp_all add: untitledOffice_def office_def)
  have tf: "\<not> textFilter ''DENTIST'' ?s" "\<not> textFilter ''DENTIST'' dentist"
           "\<not> textFilter ''Dentist'' ?s" "textFilter ''Dentist'' dentist"
    by (simp_all add: textFilter_def standup_def dentist_def orEmpty_def)
  have strict: "concat (map (sourceMatches ''DENTIST'' None None) (calendars untitledOffice)) = []"
    by (simp add: cs sourceMatches_def sourceEvents_def inRange_def tf)
  have strict': "concat (map (sourceMatches ''Dentist'' None None) (calendars untitledOffice)) =
                 [(''Home'', dentist)]"
    by (simp add: cs sourceMatches_def sourceEvents_def inRange_def tf)
  have evs: "concat (map sourceEvents (calendars untitledOffice)) = [(''Work'', ?s), (''Home'', dentist)]"
    by (simp add: cs sourceEvents_def)
  have all: "fst (getAllEvents utcHost untitledOffice) =
     Inr (map (toEvent utcHost) [(''Work'', ?s), (''Home'', dentist)])"
    unfolding getAllEvents_log [OF acc] evs by simp
  have fields: "ev_title (toEvent utcHost (''Work'', ?s)) = None"
      "ev_description (toEvent utcHost (''Work'', ?s)) = ''Daily sync''"
      "ev_location (toEvent utcHost (''Work'', ?s)) = ''Room 4''"
      "ev_title (toEvent utcHost (''Home'', dentist)) = Some ''Dentist''"
      "ev_description (toEvent utcHost (''Home'', dentist)) = []"
      "ev_location (toEvent utcHost (''Home'', dentist)) = []"
    by (simp_all add: toEvent_def standup_def dentist_def orEmpty_def)
  have inc: "\<not> includes_str [] ''dentist''" "\<not> includes_str ''daily sync'' ''dentist''"
            "\<not> includes_str ''room 4'' ''dentist''" "includes_str ''dentist'' ''dentist''"
    by code_simp+
  have m: "filter (\<lambda>ev. includes_str (toLowerCase utcHost (orEmpty (ev_title ev))) (toLowerCase utcHost ''DENTIST'') \<or>
                 includes_str (toLowerCase utcHost (ev_description ev)) (toLowerCase utcHost ''DENTIST'') \<or>
                 includes_str (toLowerCase utcHost (ev_location ev)) (toLowerCase utcHost ''DENTIST''))
     (map (toEvent utcHost) [(''Work'', ?s), (''Home'', dentist)]) =
     [toEvent utcHost (''Home'', dentist)]"
    by (simp add: fields orEmpty_def utcHost_lower lower_examples inc)
  have te: "typeErrorText utcHost = ''null is not an object''" by (simp add: utcHost_def)
  have bf: "broadFilter utcHost ''DENTIST'' (map (toEvent utcHost) [(''Work'', ?s), (''Home'', dentist)]) =
            Inl (JsError ''null is not an object'')"
    by (simp add: broadFilter_def fields te)
  have o: "optISO utcHost None = Inr None" by (simp add: optISO_simps)
  note f = findEvents_granted [OF acc o o]
  have f1: "findEvents utcHost ''DENTIST'' None None untitledOffice =
     (Inl (JsError ''Error finding calendar events: null is not an object''),
      untitledOffice\<lparr>log := [Probe Calendar, ListStores Calendar, ReadAll Calendar 0, ReadAll Calendar 1,
         ReadAll Calendar 2, Probe Calendar, ListStores Calendar, ReadAll Calendar 0,
         ReadAll Calendar 1, ReadAll Calendar 2]\<rparr>)"
    unfolding f [of "''DENTIST''"] strict evs bf
    by (simp add: cs strictLog_3 Let_def)
  have f2: "fst (findEvents utcHost ''Dentist'' None None untitledOffice) =
     Inr [toEvent utcHost (''Home'', dentist)]"
    unfolding f [of "''Dentist''"] strict' by (simp add: Let_def)
  show ?thesis using acc strict all m f2 unfolding f1 by simp
qed
section \<open>The broader search contains the strict one and is repeatable\<close>


section \<open>Access denied\<close>

text \<open>
  C7. When the probe of a domain fails, every operation of that domain throws an error
  whose message contains the path of that domain's privacy setting, and the probe is
  the only call that has reached the bridge: the state is the one before, with the
  probe added to the log.
\<close>

theorem access_denied_touches_nothing:
  "(\<not> remindersAccess w \<longrightarrow>
           deniedOutcome Reminders w (getAllReminders h w) \<and>
           deniedOutcome Reminders w (findReminders h t w) \<and>
           deniedOutcome Reminders w (createReminder h title notes due w) \<and>
           deniedOutcome Reminders w (completeReminder ident w))
   \<and> (\<not> calendarAccess w \<longrightarrow>
           deniedOutcome Calendar w (getAllEvents h w) \<and>
           deniedOutcome Calendar w (findEvents h t sd ed w) \<and>
           deniedOutcome Calendar w (createEvent h title start duration description location w))"
proof (intro conjI impI)
  assume d: "\<not> remindersAccess w"
  show "deniedOutcome Reminders w (getAllReminders h w)"
    unfolding getAllReminders_def by (rule deniedOutcome_reminders) (rule denied_reminders [OF d])
  show "deniedOutcome Reminders w (findReminders h t w)"
    unfolding findReminders_def by (rule deniedOutcome_reminders) (rule denied_reminders [OF d])
  show "deniedOutcome Reminders w (createReminder h title notes due w)"
    unfolding createReminder_def by (rule deniedOutcome_reminders) (rule denied_reminders [OF d])
  show "deniedOutcome Reminders w (completeReminder ident w)"
    unfolding completeReminder_def by (rule deniedOutcome_reminders) (rule denied_reminders [OF d])
next
  assume d: "\<not> calendarAccess w"
  show "deniedOutcome Calendar w (getAllEvents h w)"
    unfolding getAllEvents_def by (rule deniedOutcome_calendar) (rule denied_calendar [OF d])
  show "deniedOutcome Calendar w (findEvents h t sd ed w)"
    unfolding findEvents_def by (rule deniedOutcome_calendar) (rule denied_calendar [OF d])
  show "deniedOutcome Calendar w (createEvent h title start duration description location w)"
    unfolding createEvent_def by (rule deniedOutcome_calendar) (rule denied_calendar [OF d])
qed


theorem access_denied_touches_nothing_witness:
  "\<not> remindersAccess locked \<and> \<not> calendarAccess locked \<and>
   deniedOutcome Reminders locked (findReminders utcHost ''milk'' locked) \<and>
   deniedOutcome Reminders locked (completeReminder ''R1'' locked) \<and>
   deniedOutcome Calendar locked (findEvents utcHost ''milk'' None None locked) \<and>
   log (snd (findReminders utcHost ''milk'' locked)) = [Probe Reminders] \<and>
   lists (snd (completeReminder ''R1'' locked)) = lists locked"
proof -
  have l: "\<not> remindersAccess locked" "\<not> calendarAccess locked" "log locked = []"
    by (simp_all add: locked_def office_def)
  note p = access_denied_touches_nothing [where w = locked and h = utcHost and t = "''milk''"
      and ident = "''R1''" and sd = None and ed = None]
  have a: "deniedOutcome Reminders locked (findReminders utcHost ''milk'' locked)"
          "deniedOutcome Reminders locked (completeReminder ''R1'' locked)"
    using p l(1) by blast+
  have b: "deniedOutcome Calendar locked (findEvents utcHost ''milk'' None None locked)"
    using p l(2) by blast
  have c: "log (snd (findReminders utcHost ''milk'' locked)) = [Probe Reminders]"
          "lists (snd (completeReminder ''R1'' locked)) = lists locked"
    using a l(3) by (simp_all add: deniedOutcome_def call_def)
  show ?thesis using l a b c by simp
qed

section \<open>Completing a reminder\<close>






section \<open>The handler never rejects\<close>

text \<open>
  C1. The handler of a tool call always fulfils its promise with a result: it never
  rejects. Whatever the \<open>try\<close> block throws is returned as a result with \<open>isError\<close> set
  and the text of the error. In particular the call fails cleanly for a tool name that
  is not known, for an operation that the tool does not have, for arguments that the
  tool's guard rejects, when access to Reminders or Calendar is denied, when the
  contacts module throws, and when a reminder list raises during a listing.
\<close>

theorem handler_never_raises:
  "(\<exists>res. fst (handler h c name args w) = Inr res)
   \<and> (\<forall>e. fst (handlerBody h c name args w) = Inl e \<longrightarrow>
          fst (handler h c name args w) = Inr \<lparr>content = ''Error: '' @ errText e, isError = True\<rparr>)
   \<and> (name \<notin> set knownTools \<longrightarrow> failed (handler h c name args w))
   \<and> ((name = ''messages'' \<or> name = ''reminders'' \<or> name = ''calendar'') \<and>
        \<not> oneOf (operationsOf name) (get args ''operation'') \<longrightarrow>
        failed (handler h c name args w))
   \<and> ((name = ''contacts'' \<and> \<not> isContactsArgs args) \<or> (name = ''notes'' \<and> \<not> isNotesArgs args) \<or>
        (name = ''messages'' \<and> \<not> isMessagesArgs args) \<or>
        (name = ''reminders'' \<and> \<not> isRemindersArgs args) \<or>
        (name = ''calendar'' \<and> \<not> isCalendarArgs args) \<longrightarrow>
        failed (handler h c name args w))
   \<and> (\<not> remindersAccess w \<longrightarrow> failed (handler h c ''reminders'' args w))
   \<and> (\<not> calendarAccess w \<longrightarrow> failed (handler h c ''calendar'' args w))
   \<and> (truthy args \<and> isContactsArgs args \<and>
        (if truthy (get args ''name'') then findNumber c (strOf (get args ''name'')) = Inl x
         else getAllNumbers c = Inl x) \<longrightarrow>
        failed (handler h c ''contacts'' args w))
   \<and> (remindersAccess w \<and> firstDown (lists w) = Some (k, x) \<longrightarrow>
        failed (handler h c ''reminders'' listArgs w))"
proof (intro conjI allI impI)
  show "\<exists>res. fst (handler h c name args w) = Inr res" by (rule handler_fulfilled)
next
  fix e assume "fst (handlerBody h c name args w) = Inl e"
  then show "fst (handler h c name args w) = Inr \<lparr>content = ''Error: '' @ errText e, isError = True\<rparr>"
    by (rule handler_caught)
next
  assume "name \<notin> set knownTools"
  then show "failed (handler h c name args w)" by (rule unknown_tool)
next
  assume "(name = ''messages'' \<or> name = ''reminders'' \<or> name = ''calendar'') \<and>
        \<not> oneOf (operationsOf name) (get args ''operation'')"
  then show "failed (handler h c name args w)"
    by (intro failed_body bad_operation_body) simp_all
next
  assume "(name = ''contacts'' \<and> \<not> isContactsArgs args) \<or> (name = ''notes'' \<and> \<not> isNotesArgs args) \<or>
        (name = ''messages'' \<and> \<not> isMessagesArgs args) \<or>
        (name = ''reminders'' \<and> \<not> isRemindersArgs args) \<or>
        (name = ''calendar'' \<and> \<not> isCalendarArgs args)"
  then show "failed (handler h c name args w)"
    by (intro failed_body invalid_args_body)
next
  assume "\<not> remindersAccess w"
  then show "failed (handler h c ''reminders'' args w)" by (rule tool_denied_failed(1))
next
  assume "\<not> calendarAccess w"
  then show "failed (handler h c ''calendar'' args w)" by (rule tool_denied_failed(2))
next
  assume a: "truthy args \<and> isContactsArgs args \<and>
        (if truthy (get args ''name'') then findNumber c (strOf (get args ''name'')) = Inl x
         else getAllNumbers c = Inl x)"
  then have "handler h c ''contacts'' args w =
           (Inr \<lparr>content = ''Error accessing contacts: '' @ errText x, isError = True\<rparr>, w)"
    by (intro contacts_error) simp_all
  then show "failed (handler h c ''contacts'' args w)" by (simp add: failed_def)
next
  assume "remindersAccess w \<and> firstDown (lists w) = Some (k, x)"
  then have "fst (handler h c ''reminders'' listArgs w) =
           Inr \<lparr>content = ''Error: Error accessing reminders: '' @ errText x, isError = True\<rparr>"
    by (intro list_source_error) simp_all
  then show "failed (handler h c ''reminders'' listArgs w)" by (simp add: failed_def)
qed



theorem handler_never_raises_witness:
  "''weather'' \<notin> set knownTools \<and>
   failed (handler utcHost offline ''weather'' listArgs office) \<and>
   \<not> oneOf (operationsOf ''reminders'') (get (Some (JObj [(''operation'', JStr ''delete'')])) ''operation'') \<and>
   failed (handler utcHost offline ''reminders'' (Some (JObj [(''operation'', JStr ''delete'')])) office) \<and>
   \<not> isCalendarArgs (Some (JObj [(''operation'', JStr ''create''), (''duration'', JNum 30)])) \<and>
   failed (handler utcHost offline ''calendar''
             (Some (JObj [(''operation'', JStr ''create''), (''duration'', JNum 30)])) office) \<and>
   \<not> remindersAccess locked \<and> failed (handler utcHost offline ''reminders'' listArgs locked) \<and>
   \<not> calendarAccess locked \<and> failed (handler utcHost offline ''calendar'' listArgs locked) \<and>
   truthy (Some (JObj [(''name'', JStr ''Ann'')])) \<and> isContactsArgs (Some (JObj [(''name'', JStr ''Ann'')])) \<and>
   findNumber offline ''Ann'' = Inl (Thrown ''offline'') \<and>
   failed (handler utcHost offline ''contacts'' (Some (JObj [(''name'', JStr ''Ann'')])) office) \<and>
   remindersAccess brokenList \<and>
   firstDown (lists brokenList) = Some (Suc 0, Thrown ''Connection is invalid'') \<and>
   failed (handler utcHost offline ''reminders'' listArgs brokenList) \<and>
   fst (handlerBody utcHost offline ''notes'' None office) = Inl (JsError ''No arguments provided'') \<and>
   fst (handler utcHost offline ''notes'' None office) =
     Inr \<lparr>content = ''Error: No arguments provided'', isError = True\<rparr>"
proof -
  have u: "''weather'' \<notin> set knownTools" by (simp add: knownTools_def)
  have 1: "failed (handler utcHost offline ''weather'' listArgs office)"
    using handler_never_raises [where h = utcHost and c = offline and name = "''weather''"
        and args = listArgs and w = office] u by simp
  let ?del = "Some (JObj [(''operation'', JStr ''delete'')])"
  have d: "\<not> oneOf (operationsOf ''reminders'') (get ?del ''operation'')"
    by (simp add: oneOf_def operationsOf_def)
  have 2: "failed (handler utcHost offline ''reminders'' ?del office)"
    using handler_never_raises [where h = utcHost and c = offline and name = "''reminders''"
        and args = ?del and w = office] d by simp
  let ?cr = "Some (JObj [(''operation'', JStr ''create''), (''duration'', JNum 30)])"
  have v: "\<not> isCalendarArgs ?cr"
    by (simp add: isCalendarArgs_def oneOf_def isStr_def Let_def)
  have 3: "failed (handler utcHost offline ''calendar'' ?cr office)"
    using handler_never_raises [where h = utcHost and c = offline and name = "''calendar''"
        and args = ?cr and w = office] v by simp
  have l: "\<not> remindersAccess locked" "\<not> calendarAccess locked"
    by (simp_all add: locked_def office_def)
  have 4: "failed (handler utcHost offline ''reminders'' listArgs locked)"
          "failed (handler utcHost offline ''calendar'' listArgs locked)"
    using handler_never_raises [where h = utcHost and c = offline and args = listArgs and w = locked] l
    by simp_all
  let ?ann = "Some (JObj [(''name'', JStr ''Ann'')])"
  have a: "truthy ?ann" "isContactsArgs ?ann" "findNumber offline ''Ann'' = Inl (Thrown ''offline'')"
          "get ?ann ''name'' = Some (JStr ''Ann'')"
    by (simp_all add: isContactsArgs_def offline_def)
  have 5: "failed (handler utcHost offline ''contacts'' ?ann office)"
    using handler_never_raises [where h = utcHost and c = offline and args = ?ann and w = office
        and x = "Thrown ''offline''"] a by simp
  have b: "remindersAccess brokenList"
          "firstDown (lists brokenList) = Some (Suc 0, Thrown ''Connection is invalid'')"
    by (simp_all add: brokenList_def office_def)
  have 6: "failed (handler utcHost offline ''reminders'' listArgs brokenList)"
    using handler_never_raises [where h = utcHost and c = offline and w = brokenList
        and k = "Suc 0" and x = "Thrown ''Connection is invalid''"] b by simp
  have n: "fst (handlerBody utcHost offline ''notes'' None office) = Inl (JsError ''No arguments provided'')"
    by (simp add: handlerBody_no_args)
  have 7: "fst (handler utcHost offline ''notes'' None office) =
     Inr \<lparr>content = ''Error: No arguments provided'', isError = True\<rparr>"
    using handler_never_raises [where h = utcHost and c = offline and name = "''notes''"
        and args = None and w = office] n by simp
  show ?thesis using u 1 d 2 v 3 l 4 a(1,2,3) 5 b 6 n 7 by (intro conjI)
qed


end
